theory Spec2Isabelle
  imports Complex_Main
begin

section \<open>Python values used by app.py\<close>

text \<open>
  A Python \<open>float\<close>: the three special values and the finite ones. Finite values are
  modelled by exact reals, so rounding error and overflow of finite arithmetic are
  idealised away; the special values behave as in Python (every comparison with
  \<open>nan\<close> is false, \<open>int(nan)\<close> and \<open>int(inf)\<close> raise).
\<close>

datatype pyfloat = Nan | NegInf | Num real | PosInf

datatype error = ValueError | OverflowError | TypeError

text \<open>Python's \<open>a > b\<close> and \<open>a >= b\<close> on floats.\<close>

fun fgt :: "pyfloat \<Rightarrow> pyfloat \<Rightarrow> bool" where
  "fgt (Num x) (Num y) = (y < x)"
| "fgt PosInf (Num y) = True"
| "fgt PosInf NegInf = True"
| "fgt (Num x) NegInf = True"
| "fgt _ _ = False"

fun fge :: "pyfloat \<Rightarrow> pyfloat \<Rightarrow> bool" where
  "fge Nan _ = False"
| "fge _ Nan = False"
| "fge (Num x) (Num y) = (y \<le> x)"
| "fge PosInf _ = True"
| "fge _ NegInf = True"
| "fge _ _ = False"

text \<open>
  \<open>max(a, b)\<close> with two arguments keeps the first and replaces it only by an item that
  compares greater, so \<open>max(0.0, nan)\<close> is \<open>0.0\<close>.
\<close>

definition py_max :: "pyfloat \<Rightarrow> pyfloat \<Rightarrow> pyfloat" where
  "py_max a b = (if fgt b a then b else a)"

text \<open>Float addition: \<open>inf + -inf\<close> and anything with \<open>nan\<close> is \<open>nan\<close>.\<close>

fun fadd :: "pyfloat \<Rightarrow> pyfloat \<Rightarrow> pyfloat" where
  "fadd (Num x) (Num y) = Num (x + y)"
| "fadd Nan _ = Nan"
| "fadd _ Nan = Nan"
| "fadd PosInf NegInf = Nan"
| "fadd NegInf PosInf = Nan"
| "fadd PosInf _ = PosInf"
| "fadd _ PosInf = PosInf"
| "fadd NegInf _ = NegInf"
| "fadd _ NegInf = NegInf"

text \<open>\<open>int(x)\<close> on a finite float truncates towards zero.\<close>

definition trunc :: "real \<Rightarrow> int" where
  "trunc x = (if 0 \<le> x then \<lfloor>x\<rfloor> else \<lceil>x\<rceil>)"

text \<open>\<open>round(x)\<close> with one argument: the nearest integer, a tie going to the even one.\<close>

definition py_round :: "real \<Rightarrow> int" where
  "py_round x =
     (let f = \<lfloor>x\<rfloor>; d = x - of_int f
      in if d < 1 / 2 then f
         else if 1 / 2 < d then f + 1
         else if even f then f else f + 1)"

text \<open>\<open>str(n)\<close> of an integer, as an f-string renders it.\<close>

fun str_nat :: "nat \<Rightarrow> string" where
  "str_nat n =
     (if n < 10 then [''0123456789'' ! n]
      else str_nat (n div 10) @ [''0123456789'' ! (n mod 10)])"

declare str_nat.simps [simp del]

definition str_int :: "int \<Rightarrow> string" where
  "str_int i = (if i < 0 then CHR ''-'' # str_nat (nat (- i)) else str_nat (nat i))"

section \<open>format\_hours\<close>

text \<open>
  The hour and minute numbers \<open>format_hours\<close> prints for a finite input: minutes are
  rounded to a multiple of five and sixty minutes carry into the hour.
\<close>

definition format_hm :: "real \<Rightarrow> int \<times> int" where
  "format_hm hours =
     (let h = trunc hours;
          m = py_round ((hours - of_int h) * 60 / 5) * 5
      in if m = 60 then (h + 1, 0) else (h, m))"

fun format_hours :: "pyfloat option \<Rightarrow> error + string" where
  "format_hours None = Inr ''N/A''"
| "format_hours (Some Nan) = Inl ValueError"
| "format_hours (Some PosInf) = Inl OverflowError"
| "format_hours (Some NegInf) = Inl OverflowError"
| "format_hours (Some (Num hours)) =
     Inr (case format_hm hours of
            (h, m) \<Rightarrow> str_int h @ '' hours '' @ str_int m @ '' minutes'')"

section \<open>Data model\<close>

text \<open>
  The records are the dictionaries app.py builds; field \<open>t_x\<close> of a task is its key
  \<open>'x'\<close>, likewise \<open>e_x\<close> for an exam, \<open>s_x\<close> for a subject, \<open>p_x\<close> for the preferences
  and \<open>ss_x\<close> for a saved schedule. A \<open>datetime\<close> is its date (year, month, day) and its
  time of day (hour, minute, second, microsecond); \<open>.date()\<close> is \<open>dt_date\<close>.
\<close>

record datetime =
  dt_date :: "int \<times> int \<times> int"
  dt_time :: "int \<times> int \<times> int \<times> int"

record subject =
  s_name :: string
  s_difficulty :: int
  s_desired_grade :: string
  s_current_grade :: string

record prefs =
  p_daily_study_hours :: pyfloat
  p_hours_per_subject :: pyfloat
  p_available_study_time :: pyfloat
  p_num_subjects :: int

record task =
  t_id :: int
  t_name :: string
  t_deadline :: datetime
  t_hours :: pyfloat
  t_priority :: string
  t_complexity :: int
  t_past_hours :: pyfloat
  t_min_hours :: pyfloat
  t_matched_subject :: "subject option"
  t_completed :: bool
  t_actual_hours :: "pyfloat option"
  t_completion_date :: "(int \<times> int \<times> int) option"

record exam =
  e_id :: int
  e_subject_name :: string
  e_exam_name :: string
  e_exam_date :: datetime
  e_desired_grade :: string
  e_confidence :: int
  e_progress_hours :: pyfloat
  e_predicted_hours :: pyfloat
  e_completed :: bool
  e_actual_hours_spent :: "pyfloat option"

record 'i saved_schedule =
  ss_id :: int
  ss_name :: string
  ss_created_at :: string
  ss_updated_at :: string
  ss_items :: "'i list"

text \<open>The features and the observed duration handed to \<open>retrain_model\<close>.\<close>

record outcome =
  o_complexity :: int
  o_past_hours :: pyfloat
  o_priority :: int
  o_actual_hours :: pyfloat

text \<open>
  What the process can see and change: the data files, the module global \<open>task_model\<close>
  and the number of \<open>datetime.now()\<close> calls made so far. \<open>schedules_file\<close> is \<open>None\<close> while
  saved\_schedules.json is missing or unreadable.
\<close>

record ('m, 'i) store =
  prefs_file :: "prefs option"
  subjects_file :: "subject list"
  tasks_file :: "task list"
  exams_file :: "exam list"
  schedules_file :: "'i saved_schedule list option"
  task_model :: 'm
  now_calls :: nat

text \<open>
  The library functions app.py calls, taken as parameters: \<open>int(s)\<close> and \<open>float(s)\<close> on a
  string (\<open>None\<close> when they raise ValueError), \<open>datetime.strptime(s, "%Y-%m-%d")\<close>
  (\<open>None\<close> when it raises), \<open>strftime("%Y-%m-%d %H:%M:%S")\<close>, and the clock: \<open>clock n\<close>
  is what the \<open>n\<close>-th call of \<open>datetime.now()\<close> returns.
\<close>

record pyenv =
  py_int :: "string \<Rightarrow> int option"
  py_float :: "string \<Rightarrow> pyfloat option"
  strptime :: "string \<Rightarrow> datetime option"
  strftime :: "datetime \<Rightarrow> string"
  clock :: "nat \<Rightarrow> datetime"

text \<open>
  The algorithms of module planner\_ai, whose source is not part of app.py, taken as
  parameters: any estimator, exam translator and scheduler. \<open>'m\<close> is the estimator's
  state, \<open>'em\<close> the exam model, \<open>'x\<close> an exam-preparation entry and \<open>'i\<close> a schedule
  item. They are taken to return a value on every input.
\<close>

record ('m, 'em, 'x, 'i) planner_ai =
  predict_time :: "'m \<Rightarrow> int \<Rightarrow> pyfloat \<Rightarrow> int \<Rightarrow> subject option \<Rightarrow> pyfloat"
  retrain_model :: "'m \<Rightarrow> outcome \<Rightarrow> 'm"
  build_exam_model :: "subject list \<Rightarrow> 'em"
  prepare_exam_tasks :: "exam list \<Rightarrow> subject list \<Rightarrow> 'em \<Rightarrow> 'x list"
  generate_schedule :: "(task + 'x) list \<Rightarrow> prefs option \<Rightarrow> 'i list"

section \<open>Helpers\<close>

definition and_then :: "error + 'a \<Rightarrow> ('a \<Rightarrow> error + 'b) \<Rightarrow> error + 'b" where
  "and_then r f = (case r of Inl e \<Rightarrow> Inl e | Inr v \<Rightarrow> f v)"

text \<open>\<open>datetime.now()\<close>: reads the clock; the next call reads the next value.\<close>

definition now :: "pyenv \<Rightarrow> ('m, 'i) store \<Rightarrow> datetime \<times> ('m, 'i) store" where
  "now py st = (clock py (now_calls st), st\<lparr>now_calls := Suc (now_calls st)\<rparr>)"

text \<open>\<open>max(xs)\<close> of a list: the first maximum; ValueError on the empty list.\<close>

fun max_of :: "int list \<Rightarrow> error + int" where
  "max_of [] = Inl ValueError"
| "max_of (x # xs) = Inr (fold max xs x)"

text \<open>\<open>str.strip()\<close>, on the ASCII whitespace characters.\<close>

definition isspace :: "char \<Rightarrow> bool" where
  "isspace c = (c \<in> set [CHR 0x09, CHR 0x0A, CHR 0x0B, CHR 0x0C, CHR 0x0D,
                          CHR 0x1C, CHR 0x1D, CHR 0x1E, CHR 0x1F, CHR 0x20])"

definition py_strip :: "string \<Rightarrow> string" where
  "py_strip s = rev (dropWhile isspace (rev (dropWhile isspace s)))"

text \<open>The request: its method, \<open>request.form\<close> and \<open>request.args\<close>.\<close>

datatype http_method = GET | POST

record request =
  rq_method :: http_method
  rq_form :: "string \<rightharpoonup> string"
  rq_args :: "string \<rightharpoonup> string"

text \<open>\<open>form.get(k, d)\<close>, \<open>int(form.get(k, d))\<close>, \<open>int(form.get(k))\<close> and \<open>float(form.get(k, d))\<close>.\<close>

definition form_get :: "(string \<rightharpoonup> string) \<Rightarrow> string \<Rightarrow> string \<Rightarrow> string" where
  "form_get f k d = (case f k of None \<Rightarrow> d | Some s \<Rightarrow> s)"

definition form_int :: "pyenv \<Rightarrow> (string \<rightharpoonup> string) \<Rightarrow> string \<Rightarrow> int \<Rightarrow> error + int" where
  "form_int py f k d =
     (case f k of
        None \<Rightarrow> Inr d
      | Some s \<Rightarrow> (case py_int py s of None \<Rightarrow> Inl ValueError | Some i \<Rightarrow> Inr i))"

definition form_int_req :: "pyenv \<Rightarrow> (string \<rightharpoonup> string) \<Rightarrow> string \<Rightarrow> error + int" where
  "form_int_req py f k =
     (case f k of
        None \<Rightarrow> Inl TypeError
      | Some s \<Rightarrow> (case py_int py s of None \<Rightarrow> Inl ValueError | Some i \<Rightarrow> Inr i))"

definition form_float ::
  "pyenv \<Rightarrow> (string \<rightharpoonup> string) \<Rightarrow> string \<Rightarrow> pyfloat \<Rightarrow> error + pyfloat" where
  "form_float py f k d =
     (case f k of
        None \<Rightarrow> Inr d
      | Some s \<Rightarrow> (case py_float py s of None \<Rightarrow> Inl ValueError | Some x \<Rightarrow> Inr x))"

text \<open>The dictionary \<open>{'high':3, 'medium':2, 'low':1}.get(priority, 2)\<close>.\<close>

definition priority_weight :: "string \<Rightarrow> int" where
  "priority_weight p =
     (if p = ''high'' then 3 else if p = ''medium'' then 2 else if p = ''low'' then 1 else 2)"

section \<open>Persistence\<close>

text \<open>
  Modelled from the spec: the \<open>load_*\<close> and \<open>save_*\<close> functions of planner\_ai, whose
  source is missing. The spec treats persistence as an external collaborator that hands
  over the Task, Exam, Subject and Preferences records "already deserialized and
  type-valid" and persists the records it is given: a save replaces the stored list, a
  load returns the list last saved.
\<close>

definition load_prefs :: "('m, 'i) store \<Rightarrow> prefs option" where
  "load_prefs st = prefs_file st"

definition save_prefs :: "prefs \<Rightarrow> ('m, 'i) store \<Rightarrow> ('m, 'i) store" where
  "save_prefs p st = st\<lparr>prefs_file := Some p\<rparr>"

definition load_subjects :: "('m, 'i) store \<Rightarrow> subject list" where
  "load_subjects st = subjects_file st"

definition save_subjects :: "subject list \<Rightarrow> ('m, 'i) store \<Rightarrow> ('m, 'i) store" where
  "save_subjects ss st = st\<lparr>subjects_file := ss\<rparr>"

definition load_tasks :: "'m \<Rightarrow> ('m, 'i) store \<Rightarrow> task list" where
  "load_tasks m st = tasks_file st"

definition save_tasks :: "task list \<Rightarrow> ('m, 'i) store \<Rightarrow> ('m, 'i) store" where
  "save_tasks ts st = st\<lparr>tasks_file := ts\<rparr>"

definition load_exams :: "('m, 'i) store \<Rightarrow> exam list" where
  "load_exams st = exams_file st"

definition save_exams :: "exam list \<Rightarrow> ('m, 'i) store \<Rightarrow> ('m, 'i) store" where
  "save_exams es st = st\<lparr>exams_file := es\<rparr>"

text \<open>The saved schedules: app.py's own file; a missing or unreadable file reads as \<open>[]\<close>.\<close>

definition MAX_SAVED_SCHEDULES :: nat where
  "MAX_SAVED_SCHEDULES = 5"

definition load_saved_schedules :: "('m, 'i) store \<Rightarrow> 'i saved_schedule list" where
  "load_saved_schedules st = (case schedules_file st of None \<Rightarrow> [] | Some ss \<Rightarrow> ss)"

definition save_all_schedules ::
  "'i saved_schedule list \<Rightarrow> ('m, 'i) store \<Rightarrow> ('m, 'i) store" where
  "save_all_schedules schedules st = st\<lparr>schedules_file := Some schedules\<rparr>"

section \<open>Saved schedules\<close>

text \<open>\<open>max(xs, default=d)\<close>.\<close>

fun max_default :: "int list \<Rightarrow> int \<Rightarrow> int" where
  "max_default [] d = d"
| "max_default (x # xs) d = fold max xs x"

definition add_saved_schedule ::
  "pyenv \<Rightarrow> string \<Rightarrow> 'i list \<Rightarrow> ('m, 'i) store \<Rightarrow> (bool \<times> string) \<times> ('m, 'i) store" where
  "add_saved_schedule py name items st =
     (let schedules = load_saved_schedules st
      in if MAX_SAVED_SCHEDULES \<le> length schedules
         then ((False, ''You can only save up to 5 schedules.''), st)
         else
           let new_id = (if schedules \<noteq> []
                         then max_default (map ss_id schedules) 0 + 1 else 1);
               (created, st1) = now py st;
               (updated, st2) = now py st1;
               s = \<lparr>ss_id = new_id,
                    ss_name = (if py_strip name \<noteq> [] then name
                               else ''Schedule '' @ str_int new_id),
                    ss_created_at = strftime py created,
                    ss_updated_at = strftime py updated,
                    ss_items = items\<rparr>
           in ((True, ''Saved.''), save_all_schedules (schedules @ [s]) st2))"

text \<open>
  \<open>delete_saved_schedule\<close>: the comprehension evaluates \<open>int(schedule_id)\<close> once per stored
  schedule, so a malformed id raises only when a schedule is stored.
\<close>

definition delete_saved_schedule ::
  "pyenv \<Rightarrow> string \<Rightarrow> ('m, 'i) store \<Rightarrow> error + ('m, 'i) store" where
  "delete_saved_schedule py schedule_id st =
     (let schedules = load_saved_schedules st
      in if schedules = [] then Inr (save_all_schedules [] st)
         else (case py_int py schedule_id of
                 None \<Rightarrow> Inl ValueError
               | Some k \<Rightarrow>
                   Inr (save_all_schedules (filter (\<lambda>s. ss_id s \<noteq> k) schedules) st)))"

text \<open>The schedule for the stored tasks and exams, as the routes compute it.\<close>

definition current_schedule ::
  "('m, 'em, 'x, 'i) planner_ai \<Rightarrow> ('m, 'i) store \<Rightarrow> 'i list" where
  "current_schedule ai st =
     (let prefs = load_prefs st;
          subjects = load_subjects st;
          tasks = load_tasks (task_model st) st;
          exams = load_exams st;
          exam_model = build_exam_model ai subjects;
          exam_prep = prepare_exam_tasks ai exams subjects exam_model
      in generate_schedule ai (map Inl tasks @ map Inr exam_prep) prefs)"

text \<open>The loop of \<open>refresh_all_saved_schedules\<close>: each round reads the clock anew.\<close>

fun refresh_loop ::
  "pyenv \<Rightarrow> 'i list \<Rightarrow> 'i saved_schedule list \<Rightarrow> ('m, 'i) store
   \<Rightarrow> 'i saved_schedule list \<times> ('m, 'i) store" where
  "refresh_loop py regenerated [] st = ([], st)"
| "refresh_loop py regenerated (s # rest) st =
     (let (t, st1) = now py st;
          s' = s\<lparr>ss_items := regenerated, ss_updated_at := strftime py t\<rparr>;
          (rest', st2) = refresh_loop py regenerated rest st1
      in (s' # rest', st2))"

definition refresh_all_saved_schedules ::
  "pyenv \<Rightarrow> ('m, 'em, 'x, 'i) planner_ai \<Rightarrow> ('m, 'i) store \<Rightarrow> ('m, 'i) store" where
  "refresh_all_saved_schedules py ai st =
     (let schedules = load_saved_schedules st
      in if schedules = [] then st
         else
           let regenerated = current_schedule ai st;
               (schedules', st') = refresh_loop py regenerated schedules st
           in save_all_schedules schedules' st')"

section \<open>The route /\<close>

text \<open>What a handler answers: a redirect to \<open>home\<close> with query parameters, or the page.\<close>

record 'i page =
  pg_prefs :: "prefs option"
  pg_subjects :: "subject list"
  pg_exams :: "exam list"
  pg_all_tasks :: "task list"
  pg_schedule :: "'i list option"
  pg_saved_schedules :: "'i saved_schedule list"
  pg_show_saved :: bool
  pg_show_pref_form :: bool
  pg_default_tab :: string

datatype 'i response =
  Redirect "(string \<times> string) list" | Render "'i page" | MethodNotAllowed

text \<open>Save preferences: the subjects \<open>1..num_subjects\<close> are read from the form.\<close>

fun read_subjects :: "pyenv \<Rightarrow> (string \<rightharpoonup> string) \<Rightarrow> int list \<Rightarrow> error + subject list" where
  "read_subjects py f [] = Inr []"
| "read_subjects py f (i # rest) =
     and_then (form_int py f (''difficulty_'' @ str_int i) 5) (\<lambda>difficulty.
     and_then (read_subjects py f rest) (\<lambda>more.
       Inr (\<lparr>s_name = form_get f (''subject_name_'' @ str_int i) (''Subject '' @ str_int i),
             s_difficulty = difficulty,
             s_desired_grade = form_get f (''desired_grade_'' @ str_int i) ''B'',
             s_current_grade = form_get f (''current_grade_'' @ str_int i) ''B''\<rparr> # more)))"

definition home_save_prefs ::
  "pyenv \<Rightarrow> ('m, 'em, 'x, 'i) planner_ai \<Rightarrow> (string \<rightharpoonup> string) \<Rightarrow> ('m, 'i) store
   \<Rightarrow> error + ('m, 'i) store \<times> 'i response" where
  "home_save_prefs py ai f st =
     and_then (form_int py f ''num_subjects'' 1) (\<lambda>num_subjects.
     and_then (read_subjects py f [1 .. num_subjects]) (\<lambda>new_subjects.
     and_then (form_float py f ''daily_study_hours'' (Num 0)) (\<lambda>daily.
     and_then (form_float py f ''hours_per_subject'' (Num 0)) (\<lambda>per_subject.
     and_then (form_float py f ''available_study_time'' (Num 0)) (\<lambda>available.
       let new_prefs = \<lparr>p_daily_study_hours = daily,
                        p_hours_per_subject = per_subject,
                        p_available_study_time = available,
                        p_num_subjects = num_subjects\<rparr>;
           st1 = save_prefs new_prefs st;
           st2 = save_subjects new_subjects st1;
           st3 = refresh_all_saved_schedules py ai st2
       in Inr (st3, Redirect [(''tab'', ''tasks'')]))))))"

text \<open>Add task.\<close>

definition home_add_task ::
  "pyenv \<Rightarrow> ('m, 'em, 'x, 'i) planner_ai \<Rightarrow> subject list \<Rightarrow> (string \<rightharpoonup> string)
   \<Rightarrow> ('m, 'i) store \<Rightarrow> error + ('m, 'i) store \<times> 'i response" where
  "home_add_task py ai subjects f st =
     and_then (max_of (map t_id (load_tasks (task_model st) st) @ [0])) (\<lambda>greatest.
     and_then (form_int py f ''complexity'' 0) (\<lambda>c.
     and_then (form_float py f ''past_hours'' (Num 0)) (\<lambda>ph.
     and_then (form_float py f ''min_hours'' (Num 0)) (\<lambda>mh.
       let next_id = greatest + 1;
           task = py_strip (form_get f ''task'' []);
           deadline = form_get f ''deadline'' [];
           complexity = max 0 (min 10 c);
           past_hours = py_max (Num 0) ph;
           min_hours = py_max (Num 0) mh;
           priority = form_get f ''priority'' ''medium'';
           matched_subject =
             (case f ''subject_name'' of
                None \<Rightarrow> None
              | Some subject_name \<Rightarrow> find (\<lambda>s. s_name s = subject_name) subjects);
           priority_num = priority_weight priority;
           predicted = predict_time ai (task_model st) complexity past_hours priority_num
                         matched_subject;
           predicted_hours = py_max min_hours predicted;
           (deadline_dt, st1) =
             (case strptime py deadline of Some d \<Rightarrow> (d, st) | None \<Rightarrow> now py st);
           new_task = \<lparr>t_id = next_id, t_name = task, t_deadline = deadline_dt,
                       t_hours = predicted_hours, t_priority = priority,
                       t_complexity = complexity, t_past_hours = past_hours,
                       t_min_hours = min_hours, t_matched_subject = matched_subject,
                       t_completed = False, t_actual_hours = None,
                       t_completion_date = None\<rparr>;
           full = load_tasks (task_model st1) st1 @ [new_task];
           st2 = save_tasks full st1;
           st3 = refresh_all_saved_schedules py ai st2
       in Inr (st3, Redirect [(''tab'', ''tasks'')])))))"

text \<open>
  Complete task: the loop over the stored tasks. Every task whose id is the submitted one
  is marked, and the global \<open>task_model\<close> is replaced by the retrained one.
\<close>

fun complete_loop ::
  "pyenv \<Rightarrow> ('m, 'em, 'x, 'i) planner_ai \<Rightarrow> int \<Rightarrow> pyfloat \<Rightarrow> task list \<Rightarrow> ('m, 'i) store
   \<Rightarrow> task list \<times> ('m, 'i) store" where
  "complete_loop py ai task_id actual_hours [] st = ([], st)"
| "complete_loop py ai task_id actual_hours (t # rest) st =
     (if t_id t = task_id
      then
        let (today, st1) = now py st;
            t' = t\<lparr>t_completed := True,
                   t_actual_hours := Some actual_hours,
                   t_completion_date := Some (dt_date today)\<rparr>;
            pr_num = priority_weight (t_priority t');
            st2 = st1\<lparr>task_model :=
                    retrain_model ai (task_model st1)
                      \<lparr>o_complexity = t_complexity t', o_past_hours = t_past_hours t',
                       o_priority = pr_num, o_actual_hours = actual_hours\<rparr>\<rparr>;
            (rest', st3) = complete_loop py ai task_id actual_hours rest st2
        in (t' # rest', st3)
      else
        let (rest', st3) = complete_loop py ai task_id actual_hours rest st
        in (t # rest', st3))"

definition home_complete_task ::
  "pyenv \<Rightarrow> ('m, 'em, 'x, 'i) planner_ai \<Rightarrow> (string \<rightharpoonup> string) \<Rightarrow> ('m, 'i) store
   \<Rightarrow> error + ('m, 'i) store \<times> 'i response" where
  "home_complete_task py ai f st =
     and_then (form_int_req py f ''complete_task_id'') (\<lambda>task_id.
     and_then (form_int py f ''actual_hours'' 0) (\<lambda>hours.
     and_then (form_int py f ''actual_minutes'' 0) (\<lambda>minutes.
       let rounded_minutes = py_round (of_int minutes / 5) * 5;
           (hours', rounded_minutes') =
             (if rounded_minutes = 60 then (hours + 1, 0) else (hours, rounded_minutes));
           actual_hours = Num (of_int hours' + of_int rounded_minutes' / 60);
           full = load_tasks (task_model st) st;
           (full', st1) = complete_loop py ai task_id actual_hours full st;
           st2 = save_tasks full' st1;
           st3 = refresh_all_saved_schedules py ai st2
       in Inr (st3, Redirect [(''tab'', ''tasks'')]))))"

text \<open>Add exam.\<close>

definition home_add_exam ::
  "pyenv \<Rightarrow> ('m, 'em, 'x, 'i) planner_ai \<Rightarrow> (string \<rightharpoonup> string) \<Rightarrow> ('m, 'i) store
   \<Rightarrow> error + ('m, 'i) store \<times> 'i response" where
  "home_add_exam py ai f st =
     (let exams_list = load_exams st
      in and_then (max_of (map e_id exams_list @ [0])) (\<lambda>greatest.
         and_then (form_int py f ''exam_confidence'' 3) (\<lambda>confidence.
         and_then (form_float py f ''exam_progress'' (Num 0)) (\<lambda>pr.
           let next_eid = greatest + 1;
               exam_name = py_strip (form_get f ''exam_name'' []);
               subj_name = form_get f ''exam_subject'' [];
               exam_date = form_get f ''exam_date'' [];
               desired = form_get f ''exam_desired'' ''B'';
               progress = py_max (Num 0) pr;
               (exam_dt, st1) =
                 (case strptime py exam_date of Some d \<Rightarrow> (d, st) | None \<Rightarrow> now py st);
               new_exam = \<lparr>e_id = next_eid, e_subject_name = subj_name,
                           e_exam_name = exam_name, e_exam_date = exam_dt,
                           e_desired_grade = desired, e_confidence = confidence,
                           e_progress_hours = progress, e_predicted_hours = Num 0,
                           e_completed = False, e_actual_hours_spent = None\<rparr>;
               st2 = save_exams (exams_list @ [new_exam]) st1;
               st3 = refresh_all_saved_schedules py ai st2
           in Inr (st3, Redirect [(''tab'', ''exams'')])))))"

text \<open>Update exam progress and complete exam: the loops over the stored exams.\<close>

fun progress_loop :: "int \<Rightarrow> pyfloat \<Rightarrow> exam list \<Rightarrow> exam list" where
  "progress_loop eid add_p [] = []"
| "progress_loop eid add_p (e # rest) =
     (if e_id e = eid \<and> \<not> e_completed e
      then e\<lparr>e_progress_hours := fadd (e_progress_hours e) add_p\<rparr>
      else e) # progress_loop eid add_p rest"

definition home_update_exam ::
  "pyenv \<Rightarrow> ('m, 'em, 'x, 'i) planner_ai \<Rightarrow> (string \<rightharpoonup> string) \<Rightarrow> ('m, 'i) store
   \<Rightarrow> error + ('m, 'i) store \<times> 'i response" where
  "home_update_exam py ai f st =
     and_then (form_int_req py f ''update_exam_id'') (\<lambda>eid.
     and_then (form_float py f ''add_progress_hours'' (Num 0)) (\<lambda>d.
       let add_p = py_max (Num 0) d;
           exs = progress_loop eid add_p (load_exams st);
           st1 = save_exams exs st;
           st2 = refresh_all_saved_schedules py ai st1
       in Inr (st2, Redirect [(''tab'', ''exams'')])))"

fun complete_exam_loop :: "int \<Rightarrow> pyfloat \<Rightarrow> exam list \<Rightarrow> exam list" where
  "complete_exam_loop eid actual [] = []"
| "complete_exam_loop eid actual (e # rest) =
     (if e_id e = eid
      then e\<lparr>e_completed := True, e_actual_hours_spent := Some actual\<rparr>
      else e) # complete_exam_loop eid actual rest"

definition home_complete_exam ::
  "pyenv \<Rightarrow> ('m, 'em, 'x, 'i) planner_ai \<Rightarrow> (string \<rightharpoonup> string) \<Rightarrow> ('m, 'i) store
   \<Rightarrow> error + ('m, 'i) store \<times> 'i response" where
  "home_complete_exam py ai f st =
     and_then (form_int_req py f ''complete_exam_id'') (\<lambda>eid.
     and_then (form_float py f ''exam_actual_hours'' (Num 0)) (\<lambda>a.
       let actual = py_max (Num 0) a;
           exs = complete_exam_loop eid actual (load_exams st);
           st1 = save_exams exs st;
           st2 = refresh_all_saved_schedules py ai st1
       in Inr (st2, Redirect [(''tab'', ''exams'')])))"

text \<open>The page \<open>home\<close> renders when no branch has redirected.\<close>

definition home_page :: "request \<Rightarrow> bool \<Rightarrow> ('m, 'i) store \<Rightarrow> 'i page" where
  "home_page rq show_pref_form st =
     \<lparr>pg_prefs = load_prefs st,
      pg_subjects = load_subjects st,
      pg_exams = load_exams st,
      pg_all_tasks =
        (if load_prefs st \<noteq> None
         then filter (\<lambda>t. \<not> t_completed t) (load_tasks (task_model st) st) else []),
      pg_schedule = None,
      pg_saved_schedules = load_saved_schedules st,
      pg_show_saved = (form_get (rq_args rq) ''show_saved'' ''0'' = ''1''),
      pg_show_pref_form = show_pref_form,
      pg_default_tab = form_get (rq_args rq) ''tab'' ''tasks''\<rparr>"

text \<open>The \<open>if\<close>/\<open>elif\<close> chain of \<open>home\<close>: which branch serves a request.\<close>

datatype action =
  SavePrefs | EditPrefs | AddTask | CompleteTask | AddExam | UpdateExam | CompleteExam | Show

definition action_of :: "request \<Rightarrow> action" where
  "action_of rq =
     (let f = rq_form rq
      in if rq_method rq = POST then
           if f ''save_prefs'' \<noteq> None then SavePrefs
           else if f ''edit_prefs'' \<noteq> None then EditPrefs
           else if f ''add_task'' \<noteq> None then AddTask
           else if f ''complete_task_id'' \<noteq> None then CompleteTask
           else if f ''add_exam'' \<noteq> None then AddExam
           else if f ''update_exam_id'' \<noteq> None then UpdateExam
           else if f ''complete_exam_id'' \<noteq> None then CompleteExam
           else Show
         else Show)"

definition home ::
  "pyenv \<Rightarrow> ('m, 'em, 'x, 'i) planner_ai \<Rightarrow> request \<Rightarrow> ('m, 'i) store
   \<Rightarrow> error + ('m, 'i) store \<times> 'i response" where
  "home py ai rq st =
     (let subjects = load_subjects st; f = rq_form rq
      in case action_of rq of
           SavePrefs \<Rightarrow> home_save_prefs py ai f st
         | EditPrefs \<Rightarrow> Inr (st, Render (home_page rq True st))
         | AddTask \<Rightarrow> home_add_task py ai subjects f st
         | CompleteTask \<Rightarrow> home_complete_task py ai f st
         | AddExam \<Rightarrow> home_add_exam py ai f st
         | UpdateExam \<Rightarrow> home_update_exam py ai f st
         | CompleteExam \<Rightarrow> home_complete_exam py ai f st
         | Show \<Rightarrow> Inr (st, Render (home_page rq False st)))"

section \<open>The other routes\<close>

definition generate ::
  "('m, 'em, 'x, 'i) planner_ai \<Rightarrow> ('m, 'i) store \<Rightarrow> 'i page" where
  "generate ai st =
     \<lparr>pg_prefs = load_prefs st,
      pg_subjects = load_subjects st,
      pg_exams = load_exams st,
      pg_all_tasks = filter (\<lambda>t. \<not> t_completed t) (load_tasks (task_model st) st),
      pg_schedule = Some (current_schedule ai st),
      pg_saved_schedules = load_saved_schedules st,
      pg_show_saved = False,
      pg_show_pref_form = False,
      pg_default_tab = ''tasks''\<rparr>"

definition save_schedule ::
  "pyenv \<Rightarrow> ('m, 'em, 'x, 'i) planner_ai \<Rightarrow> request \<Rightarrow> ('m, 'i) store
   \<Rightarrow> ('m, 'i) store \<times> 'i response" where
  "save_schedule py ai rq st =
     (let schedule = current_schedule ai st;
          name = py_strip (form_get (rq_form rq) ''schedule_name'' []);
          (result, st1) =
            add_saved_schedule py (if name \<noteq> [] then name else ''Saved Schedule'') schedule st
      in (st1, Redirect [(''tab'', ''tasks''), (''show_saved'', ''1'')]))"

definition delete_schedule ::
  "pyenv \<Rightarrow> request \<Rightarrow> ('m, 'i) store \<Rightarrow> error + ('m, 'i) store \<times> 'i response" where
  "delete_schedule py rq st =
     (case rq_form rq ''schedule_id'' of
        None \<Rightarrow> Inr (st, Redirect [(''tab'', ''tasks''), (''show_saved'', ''1'')])
      | Some schedule_id \<Rightarrow>
          if schedule_id = [] then Inr (st, Redirect [(''tab'', ''tasks''), (''show_saved'', ''1'')])
          else and_then (delete_saved_schedule py schedule_id st) (\<lambda>st1.
                 Inr (st1, Redirect [(''tab'', ''tasks''), (''show_saved'', ''1'')])))"

text \<open>
  The application as a whole: a request is served by the handler of its route; the routes
  other than \<open>/\<close> accept POST only. A request whose handler raises changes nothing, since
  every handler parses its form before it saves or reads the clock; the run goes on with
  the store as it was.
\<close>

datatype route = Home | Generate | SaveSchedule | DeleteSchedule

fun serve ::
  "pyenv \<Rightarrow> ('m, 'em, 'x, 'i) planner_ai \<Rightarrow> route \<times> request \<Rightarrow> ('m, 'i) store
   \<Rightarrow> error + ('m, 'i) store \<times> 'i response" where
  "serve py ai (Home, rq) st = home py ai rq st"
| "serve py ai (Generate, rq) st =
     (if rq_method rq = POST then Inr (st, Render (generate ai st))
      else Inr (st, MethodNotAllowed))"
| "serve py ai (SaveSchedule, rq) st =
     (if rq_method rq = POST then Inr (save_schedule py ai rq st)
      else Inr (st, MethodNotAllowed))"
| "serve py ai (DeleteSchedule, rq) st =
     (if rq_method rq = POST then delete_schedule py rq st
      else Inr (st, MethodNotAllowed))"

fun run ::
  "pyenv \<Rightarrow> ('m, 'em, 'x, 'i) planner_ai \<Rightarrow> (route \<times> request) list \<Rightarrow> ('m, 'i) store
   \<Rightarrow> ('m, 'i) store" where
  "run py ai [] st = st"
| "run py ai (r # rest) st =
     (case serve py ai r st of
        Inl e \<Rightarrow> run py ai rest st
      | Inr (st', answer) \<Rightarrow> run py ai rest st')"

section \<open>A concrete environment\<close>

text \<open>
  One instance of the parameters, to run the handlers on concrete requests: a parser of
  decimal integers, a \<open>float\<close> that reads the same strings and \<open>nan\<close>, \<open>inf\<close>, \<open>-inf\<close>, a
  \<open>strptime\<close> that accepts well-formed \<open>YYYY-MM-DD\<close> strings of digits, a clock that
  advances one second per reading, an estimator whose state counts the retrainings, and
  a scheduler that lists the names of the open tasks and the ids of the open exams.
\<close>

definition digit_of :: "char \<Rightarrow> nat option" where
  "digit_of c =
     map_of [(CHR ''0'', 0), (CHR ''1'', 1), (CHR ''2'', 2), (CHR ''3'', 3), (CHR ''4'', 4),
             (CHR ''5'', 5), (CHR ''6'', 6), (CHR ''7'', 7), (CHR ''8'', 8), (CHR ''9'', 9)] c"

fun parse_nat :: "string \<Rightarrow> nat \<Rightarrow> nat option" where
  "parse_nat [] acc = Some acc"
| "parse_nat (c # cs) acc =
     (case digit_of c of None \<Rightarrow> None | Some d \<Rightarrow> parse_nat cs (10 * acc + d))"

definition demo_int :: "string \<Rightarrow> int option" where
  "demo_int s =
     (case s of
        [] \<Rightarrow> None
      | c # cs \<Rightarrow>
          if c = CHR ''-''
          then (if cs = [] then None else map_option (\<lambda>n. - int n) (parse_nat cs 0))
          else map_option int (parse_nat s 0))"

definition demo_float :: "string \<Rightarrow> pyfloat option" where
  "demo_float s =
     (if s = ''nan'' then Some Nan
      else if s = ''inf'' then Some PosInf
      else if s = ''-inf'' then Some NegInf
      else map_option (\<lambda>i. Num (of_int i)) (demo_int s))"

definition demo_strptime :: "string \<Rightarrow> datetime option" where
  "demo_strptime s =
     (if length s = 10 \<and> s ! 4 = CHR ''-'' \<and> s ! 7 = CHR ''-''
      then (case (parse_nat (take 4 s) 0, parse_nat (take 2 (drop 5 s)) 0,
                  parse_nat (drop 8 s) 0) of
              (Some y, Some m, Some d) \<Rightarrow>
                if 1 \<le> m \<and> m \<le> 12 \<and> 1 \<le> d \<and> d \<le> 31
                then Some \<lparr>dt_date = (int y, int m, int d), dt_time = (0, 0, 0, 0)\<rparr>
                else None
            | _ \<Rightarrow> None)
      else None)"

definition demo_strftime :: "datetime \<Rightarrow> string" where
  "demo_strftime t =
     (case (dt_date t, dt_time t) of
        ((y, m, d), (h, mi, s, us)) \<Rightarrow>
          str_int y @ ''-'' @ str_int m @ ''-'' @ str_int d @ '' '' @
          str_int h @ '':'' @ str_int mi @ '':'' @ str_int s)"

definition demo_clock :: "nat \<Rightarrow> datetime" where
  "demo_clock n = \<lparr>dt_date = (2026, 11, 3), dt_time = (12, 0, int n, 0)\<rparr>"

definition demo_py :: pyenv where
  "demo_py = \<lparr>py_int = demo_int, py_float = demo_float, strptime = demo_strptime,
              strftime = demo_strftime, clock = demo_clock\<rparr>"

definition demo_ai :: "(nat, unit, int, string) planner_ai" where
  "demo_ai =
     \<lparr>predict_time = (\<lambda>m c ph pw subj. fadd (Num (of_int (c * pw))) ph),
      retrain_model = (\<lambda>m outcome. Suc m),
      build_exam_model = (\<lambda>subjects. ()),
      prepare_exam_tasks = (\<lambda>exams subjects em. map e_id (filter (\<lambda>e. \<not> e_completed e) exams)),
      generate_schedule = (\<lambda>entries prefs.
        concat (map (\<lambda>entry. case entry of
                               Inl t \<Rightarrow> (if t_completed t then [] else [t_name t])
                             | Inr x \<Rightarrow> [''exam '' @ str_int x]) entries))\<rparr>"

definition empty_store :: "(nat, string) store" where
  "empty_store =
     \<lparr>prefs_file = None, subjects_file = [], tasks_file = [], exams_file = [],
      schedules_file = None, task_model = 0, now_calls = 0\<rparr>"

definition post :: "(string \<times> string) list \<Rightarrow> request" where
  "post kvs = \<lparr>rq_method = POST, rq_form = map_of kvs, rq_args = Map.empty\<rparr>"

text \<open>
  Requests against that environment: a task with a complexity above the range, negative
  past hours, \<open>nan\<close> minimum hours and a malformed deadline; an exam with a malformed date
  and negative progress.
\<close>

definition demo_add_task :: request where
  "demo_add_task =
     post [(''add_task'', ''1''), (''task'', '' essay ''), (''deadline'', ''next week''),
           (''complexity'', ''15''), (''past_hours'', ''-2''), (''min_hours'', ''nan''),
           (''priority'', ''high'')]"

definition demo_add_exam :: request where
  "demo_add_exam =
     post [(''add_exam'', ''1''), (''exam_name'', ''finals''), (''exam_subject'', ''maths''),
           (''exam_date'', ''2026-13-01''), (''exam_confidence'', ''2''),
           (''exam_progress'', ''-1'')]"

text \<open>
  A well-formed task; progress on and completion of exam 1; completion of task 1; and the
  stores these requests lead to from the empty one.
\<close>

definition demo_add_task2 :: request where
  "demo_add_task2 =
     post [(''add_task'', ''1''), (''task'', ''lab report''), (''deadline'', ''2026-12-01''),
           (''complexity'', ''4''), (''past_hours'', ''2''), (''min_hours'', ''1''),
           (''priority'', ''low'')]"

definition demo_update_exam :: request where
  "demo_update_exam = post [(''update_exam_id'', ''1''), (''add_progress_hours'', ''3'')]"

definition demo_complete_exam :: request where
  "demo_complete_exam = post [(''complete_exam_id'', ''1''), (''exam_actual_hours'', ''7'')]"

definition demo_complete_task :: request where
  "demo_complete_task =
     post [(''complete_task_id'', ''1''), (''actual_hours'', ''2''), (''actual_minutes'', ''58'')]"

definition one_exam_store :: "(nat, string) store" where
  "one_exam_store = run demo_py demo_ai [(Home, demo_add_exam)] empty_store"

definition done_exam_store :: "(nat, string) store" where
  "done_exam_store = run demo_py demo_ai [(Home, demo_complete_exam)] one_exam_store"

definition done_task_store :: "(nat, string) store" where
  "done_task_store =
     run demo_py demo_ai [(Home, demo_add_task2), (Home, demo_complete_task)] empty_store"

definition two_schedules_store :: "(nat, string) store" where
  "two_schedules_store =
     run demo_py demo_ai
       [(Home, demo_add_task2), (SaveSchedule, post []),
        (SaveSchedule, post [(''schedule_name'', ''plan B'')]), (Home, demo_add_exam)]
       empty_store"

definition five_schedules_store :: "(nat, string) store" where
  "five_schedules_store =
     run demo_py demo_ai
       [(SaveSchedule, post []), (SaveSchedule, post []), (SaveSchedule, post []),
        (SaveSchedule, post [])]
       (run demo_py demo_ai [(SaveSchedule, post [])] empty_store)"

section \<open>Properties of the Python values\<close>




section \<open>format\_hours is total on the numbers of hours\<close>



text \<open>The sixty-minute case carries into the hour; \<open>inf\<close> and \<open>nan\<close> are no numbers of hours.\<close>

lemma format_hours_carry_example:
  "format_hours (Some (Num (299 / 100))) = Inr ''3 hours 0 minutes''"
  by (simp add: format_hm_def trunc_def py_round_def str_int_def str_nat.simps Let_def)

lemma format_hours_example:
  "format_hours (Some (Num (5 / 4))) = Inr ''1 hours 15 minutes''"
  by (simp add: format_hm_def trunc_def py_round_def str_int_def str_nat.simps Let_def)


lemma format_hours_special:
  "format_hours (Some PosInf) = Inl OverflowError" "format_hours (Some Nan) = Inl ValueError"
  by simp_all

section \<open>What the handlers do to the store\<close>

lemma fgt_imp_fge: "fgt a b \<Longrightarrow> fge a b"
  by (cases a; cases b) simp_all

lemma fge_refl: "a \<noteq> Nan \<Longrightarrow> fge a a"
  by (cases a) simp_all

lemma fge_trans: "fge a b \<Longrightarrow> fge b c \<Longrightarrow> fge a c"
  by (cases a; cases b; cases c) simp_all

lemma py_max_zero_cases: "py_max (Num 0) x = PosInf \<or> (\<exists>r\<ge>0. py_max (Num 0) x = Num r)"
  by (cases x) (simp_all add: py_max_def)

lemma py_max_zero_nonneg: "fge (py_max (Num 0) x) (Num 0)"
  by (cases x) (simp_all add: py_max_def)

lemma py_max_ge_first: "a \<noteq> Nan \<Longrightarrow> fge (py_max a b) a"
  by (simp add: py_max_def fgt_imp_fge fge_refl)

lemma fadd_nonneg_ge:
  assumes "fge p (Num 0)" and "fge a (Num 0)"
  shows "fge (fadd p a) p" and "fge (fadd p a) (Num 0)"
  using assms by (cases p; cases a; simp)+

lemma max_of_snoc: "max_of (xs @ [z]) = Inr (Max (insert z (set xs)))"
proof (cases xs)
  case Nil
  then show ?thesis by simp
next
  case (Cons x rest)
  have "fold max (rest @ [z]) x = Max (set (x # rest @ [z]))"
    by (rule Max.set_eq_fold [symmetric])
  then show ?thesis using Cons by (simp add: insert_commute)
qed

lemma refresh_loop_eq:
  "refresh_loop py reg ss st =
     (map (\<lambda>(n, s). s\<lparr>ss_items := reg, ss_updated_at := strftime py (clock py n)\<rparr>)
        (enumerate (now_calls st) ss),
      st\<lparr>now_calls := now_calls st + length ss\<rparr>)"
  by (induction ss arbitrary: st) (simp_all add: now_def Let_def)

lemma refresh_all_eq:
  "refresh_all_saved_schedules py ai st =
     (if load_saved_schedules st = [] then st
      else st\<lparr>schedules_file :=
                Some (map (\<lambda>(n, s). s\<lparr>ss_items := current_schedule ai st,
                                       ss_updated_at := strftime py (clock py n)\<rparr>)
                        (enumerate (now_calls st) (load_saved_schedules st))),
              now_calls := now_calls st + length (load_saved_schedules st)\<rparr>)"
  by (simp add: refresh_all_saved_schedules_def refresh_loop_eq save_all_schedules_def Let_def)

lemma refresh_all_frame [simp]:
  "tasks_file (refresh_all_saved_schedules py ai st) = tasks_file st"
  "exams_file (refresh_all_saved_schedules py ai st) = exams_file st"
  "prefs_file (refresh_all_saved_schedules py ai st) = prefs_file st"
  "subjects_file (refresh_all_saved_schedules py ai st) = subjects_file st"
  "task_model (refresh_all_saved_schedules py ai st) = task_model st"
  by (simp_all add: refresh_all_eq)

text \<open>The loops keep the order, the number and the ids of the records.\<close>

lemma complete_loop_frame:
  "complete_loop py ai tid ah ts st = (ts', st') \<Longrightarrow>
     map t_id ts' = map t_id ts \<and> tasks_file st' = tasks_file st \<and>
     exams_file st' = exams_file st \<and> schedules_file st' = schedules_file st \<and>
     prefs_file st' = prefs_file st \<and> subjects_file st' = subjects_file st"
proof (induction ts arbitrary: st ts' st')
  case Nil
  then show ?case by simp
next
  case (Cons t rest)
  show ?case
  proof (cases "t_id t = tid")
    case True
    with Cons.prems obtain st2 rest' where
      rec: "complete_loop py ai tid ah rest st2 = (rest', st')" and
      ts': "map t_id ts' = t_id t # map t_id rest'" and
      st2: "tasks_file st2 = tasks_file st" "exams_file st2 = exams_file st"
           "schedules_file st2 = schedules_file st" "prefs_file st2 = prefs_file st"
           "subjects_file st2 = subjects_file st"
      by (auto simp: Let_def now_def split: prod.splits)
    from Cons.IH [OF rec] ts' st2 show ?thesis by simp
  next
    case False
    with Cons.prems obtain rest' where
      rec: "complete_loop py ai tid ah rest st = (rest', st')" and
      ts': "ts' = t # rest'"
      by (auto simp: Let_def split: prod.splits)
    from Cons.IH [OF rec] ts' show ?thesis by simp
  qed
qed

lemma progress_loop_length [simp]: "length (progress_loop eid p es) = length es"
  by (induction es) simp_all

lemma progress_loop_nth:
  "i < length es \<Longrightarrow>
     progress_loop eid p es ! i =
       (if e_id (es ! i) = eid \<and> \<not> e_completed (es ! i)
        then (es ! i)\<lparr>e_progress_hours := fadd (e_progress_hours (es ! i)) p\<rparr>
        else es ! i)"
proof (induction es arbitrary: i)
  case Nil
  then show ?case by simp
next
  case (Cons e rest)
  then show ?case by (cases i) simp_all
qed

lemma complete_exam_loop_length [simp]: "length (complete_exam_loop eid a es) = length es"
  by (induction es) simp_all

lemma complete_exam_loop_nth:
  "i < length es \<Longrightarrow>
     complete_exam_loop eid a es ! i =
       (if e_id (es ! i) = eid
        then (es ! i)\<lparr>e_completed := True, e_actual_hours_spent := Some a\<rparr>
        else es ! i)"
proof (induction es arbitrary: i)
  case Nil
  then show ?case by simp
next
  case (Cons e rest)
  then show ?case by (cases i) simp_all
qed

lemma progress_loop_ids [simp]: "map e_id (progress_loop eid p es) = map e_id es"
  by (induction es) simp_all

lemma complete_exam_loop_ids [simp]: "map e_id (complete_exam_loop eid a es) = map e_id es"
  by (induction es) simp_all

text \<open>An add-task request that is served has parsed its numbers and appended one task.\<close>

lemma and_then_Inr:
  "and_then r f = Inr v \<longleftrightarrow> (\<exists>x. r = Inr x \<and> f x = Inr v)"
  by (cases r) (simp_all add: and_then_def)

lemma home_add_task_result:
  assumes "home_add_task py ai subjects f st = Inr (st', answer)"
  shows "\<exists>c ph mh t.
           form_int py f ''complexity'' 0 = Inr c \<and>
           form_float py f ''past_hours'' (Num 0) = Inr ph \<and>
           form_float py f ''min_hours'' (Num 0) = Inr mh \<and>
           tasks_file st' = tasks_file st @ [t] \<and>
           exams_file st' = exams_file st \<and>
           task_model st' = task_model st \<and>
           t_id t = Max (insert 0 (set (map t_id (tasks_file st)))) + 1 \<and>
           t_complexity t = max 0 (min 10 c) \<and>
           t_past_hours t = py_max (Num 0) ph \<and>
           t_min_hours t = py_max (Num 0) mh \<and>
           t_priority t = form_get f ''priority'' ''medium'' \<and>
           t_matched_subject t =
             (case f ''subject_name'' of
                None \<Rightarrow> None
              | Some n \<Rightarrow> find (\<lambda>s. s_name s = n) subjects) \<and>
           t_hours t = py_max (t_min_hours t)
                         (predict_time ai (task_model st) (t_complexity t) (t_past_hours t)
                            (priority_weight (t_priority t)) (t_matched_subject t)) \<and>
           t_deadline t =
             (case strptime py (form_get f ''deadline'' []) of
                Some d \<Rightarrow> d
              | None \<Rightarrow> clock py (now_calls st)) \<and>
           \<not> t_completed t"
  using assms
  unfolding home_add_task_def and_then_Inr max_of_snoc load_tasks_def
  by (auto simp: Let_def now_def save_tasks_def split: option.splits prod.splits)

lemma home_add_task_succeeds:
  assumes "form_int py f ''complexity'' 0 = Inr c"
    and "form_float py f ''past_hours'' (Num 0) = Inr ph"
    and "form_float py f ''min_hours'' (Num 0) = Inr mh"
  shows "\<exists>st' answer. home_add_task py ai subjects f st = Inr (st', answer)"
  using assms
  unfolding home_add_task_def max_of_snoc load_tasks_def
  by (simp add: and_then_def Let_def split: option.splits prod.splits)

lemma home_add_exam_result:
  assumes "home_add_exam py ai f st = Inr (st', answer)"
  shows "\<exists>k pr e.
           form_int py f ''exam_confidence'' 3 = Inr k \<and>
           form_float py f ''exam_progress'' (Num 0) = Inr pr \<and>
           exams_file st' = exams_file st @ [e] \<and>
           tasks_file st' = tasks_file st \<and>
           task_model st' = task_model st \<and>
           e_id e = Max (insert 0 (set (map e_id (exams_file st)))) + 1 \<and>
           e_confidence e = k \<and>
           e_progress_hours e = py_max (Num 0) pr \<and>
           e_exam_date e =
             (case strptime py (form_get f ''exam_date'' []) of
                Some d \<Rightarrow> d
              | None \<Rightarrow> clock py (now_calls st)) \<and>
           \<not> e_completed e"
  using assms
  unfolding home_add_exam_def and_then_Inr max_of_snoc load_exams_def Let_def
  by (auto simp: now_def save_exams_def split: option.splits prod.splits)

lemma home_add_exam_succeeds:
  assumes "form_int py f ''exam_confidence'' 3 = Inr k"
    and "form_float py f ''exam_progress'' (Num 0) = Inr pr"
  shows "\<exists>st' answer. home_add_exam py ai f st = Inr (st', answer)"
  using assms
  unfolding home_add_exam_def max_of_snoc load_exams_def Let_def
  by (simp add: and_then_def split: option.splits prod.splits)

lemma home_update_exam_result:
  assumes "home_update_exam py ai f st = Inr (st', answer)"
  shows "\<exists>eid d.
           form_int_req py f ''update_exam_id'' = Inr eid \<and>
           form_float py f ''add_progress_hours'' (Num 0) = Inr d \<and>
           exams_file st' = progress_loop eid (py_max (Num 0) d) (exams_file st) \<and>
           tasks_file st' = tasks_file st \<and> task_model st' = task_model st"
  using assms
  unfolding home_update_exam_def and_then_Inr load_exams_def Let_def
  by (auto simp: save_exams_def)

lemma home_complete_exam_result:
  assumes "home_complete_exam py ai f st = Inr (st', answer)"
  shows "\<exists>eid a.
           form_int_req py f ''complete_exam_id'' = Inr eid \<and>
           form_float py f ''exam_actual_hours'' (Num 0) = Inr a \<and>
           exams_file st' = complete_exam_loop eid (py_max (Num 0) a) (exams_file st) \<and>
           tasks_file st' = tasks_file st \<and> task_model st' = task_model st"
  using assms
  unfolding home_complete_exam_def and_then_Inr load_exams_def Let_def
  by (auto simp: save_exams_def)

lemma home_complete_task_result:
  assumes "home_complete_task py ai f st = Inr (st', answer)"
  shows "map t_id (tasks_file st') = map t_id (tasks_file st) \<and>
         exams_file st' = exams_file st"
proof -
  from assms obtain tid ah where
    st': "st' = refresh_all_saved_schedules py ai
                  (save_tasks (fst (complete_loop py ai tid ah (tasks_file st) st))
                     (snd (complete_loop py ai tid ah (tasks_file st) st)))"
    unfolding home_complete_task_def and_then_Inr load_tasks_def Let_def split_def
    by auto
  obtain full' st1 where
    loop: "complete_loop py ai tid ah (tasks_file st) st = (full', st1)"
    by (cases "complete_loop py ai tid ah (tasks_file st) st")
  from complete_loop_frame [OF loop] st' loop show ?thesis
    by (simp add: save_tasks_def)
qed

lemma home_save_prefs_result:
  assumes "home_save_prefs py ai f st = Inr (st', answer)"
  shows "tasks_file st' = tasks_file st \<and> exams_file st' = exams_file st \<and>
         task_model st' = task_model st"
  using assms
  unfolding home_save_prefs_def and_then_Inr Let_def
  by (auto simp: save_prefs_def save_subjects_def)

section \<open>Running the handlers\<close>

lemma home_AddTask:
  "action_of rq = AddTask \<Longrightarrow>
     home py ai rq st = home_add_task py ai (load_subjects st) (rq_form rq) st"
  by (simp add: home_def)

lemma home_AddExam:
  "action_of rq = AddExam \<Longrightarrow> home py ai rq st = home_add_exam py ai (rq_form rq) st"
  by (simp add: home_def)

lemmas demo_defs =
  demo_py_def demo_ai_def demo_int_def demo_float_def demo_strptime_def demo_strftime_def
  demo_clock_def digit_of_def empty_store_def post_def

lemmas handler_defs =
  home_def action_of_def home_add_task_def home_add_exam_def home_update_exam_def
  home_complete_exam_def home_complete_task_def home_save_prefs_def
  and_then_def form_int_def form_int_req_def form_float_def form_get_def
  load_tasks_def save_tasks_def load_exams_def save_exams_def load_subjects_def
  load_prefs_def save_prefs_def save_subjects_def load_saved_schedules_def
  save_all_schedules_def refresh_all_saved_schedules_def current_schedule_def
  now_def py_max_def priority_weight_def py_strip_def isspace_def Let_def

lemma demo_add_task_run:
  "home demo_py demo_ai demo_add_task empty_store =
     Inr (\<lparr>prefs_file = None, subjects_file = [],
            tasks_file =
              [\<lparr>t_id = 1, t_name = ''essay'',
                t_deadline = \<lparr>dt_date = (2026, 11, 3), dt_time = (12, 0, 0, 0)\<rparr>,
                t_hours = Num 30, t_priority = ''high'', t_complexity = 10,
                t_past_hours = Num 0, t_min_hours = Num 0, t_matched_subject = None,
                t_completed = False, t_actual_hours = None, t_completion_date = None\<rparr>],
            exams_file = [], schedules_file = None, task_model = 0, now_calls = 1\<rparr>,
          Redirect [(''tab'', ''tasks'')])"
  by (simp add: demo_add_task_def demo_defs handler_defs)

lemma demo_add_exam_run:
  "home demo_py demo_ai demo_add_exam empty_store =
     Inr (\<lparr>prefs_file = None, subjects_file = [], tasks_file = [],
            exams_file =
              [\<lparr>e_id = 1, e_subject_name = ''maths'', e_exam_name = ''finals'',
                e_exam_date = \<lparr>dt_date = (2026, 11, 3), dt_time = (12, 0, 0, 0)\<rparr>,
                e_desired_grade = ''B'', e_confidence = 2, e_progress_hours = Num 0,
                e_predicted_hours = Num 0, e_completed = False,
                e_actual_hours_spent = None\<rparr>],
            schedules_file = None, task_model = 0, now_calls = 1\<rparr>,
          Redirect [(''tab'', ''exams'')])"
  by (simp add: demo_add_exam_def demo_defs handler_defs)

section \<open>Adding a task\<close>

text \<open>
  Claim C1. Every add-task request that is served appends one task whose \<open>hours\<close> field
  is \<open>max(min_hours, predict_time(task_model, complexity, past_hours, priority_num,
  matched_subject))\<close>, computed from the values stored on that task, and so is at least
  its \<open>min_hours\<close>.
\<close>

theorem add_task_predicted_hours_floor:
  assumes "action_of rq = AddTask" and "home py ai rq st = Inr (st', answer)"
  shows "\<exists>t. tasks_file st' = tasks_file st @ [t] \<and>
             t_hours t = py_max (t_min_hours t)
                           (predict_time ai (task_model st) (t_complexity t) (t_past_hours t)
                              (priority_weight (t_priority t)) (t_matched_subject t)) \<and>
             fge (t_hours t) (t_min_hours t)"
proof -
  from assms have "home_add_task py ai (load_subjects st) (rq_form rq) st = Inr (st', answer)"
    by (simp add: home_AddTask)
  from home_add_task_result [OF this] obtain mh t where
    t: "tasks_file st' = tasks_file st @ [t]"
       "t_min_hours t = py_max (Num 0) mh"
       "t_hours t = py_max (t_min_hours t)
                      (predict_time ai (task_model st) (t_complexity t) (t_past_hours t)
                         (priority_weight (t_priority t)) (t_matched_subject t))"
    by blast
  have "t_min_hours t \<noteq> Nan"
    using py_max_zero_cases [of mh] t(2) by auto
  then have "fge (t_hours t) (t_min_hours t)"
    unfolding t(3) by (rule py_max_ge_first)
  with t show ?thesis by blast
qed

theorem add_task_predicted_hours_floor_witness:
  "action_of demo_add_task = AddTask \<and>
   (\<exists>st' answer. home demo_py demo_ai demo_add_task empty_store = Inr (st', answer) \<and>
      (\<exists>t. tasks_file st' = tasks_file empty_store @ [t] \<and>
            t_hours t = py_max (t_min_hours t)
                          (predict_time demo_ai (task_model empty_store) (t_complexity t)
                             (t_past_hours t) (priority_weight (t_priority t))
                             (t_matched_subject t)) \<and>
            fge (t_hours t) (t_min_hours t)))"
proof -
  have a: "action_of demo_add_task = AddTask"
    by (simp add: demo_add_task_def post_def action_of_def)
  from add_task_predicted_hours_floor [OF a demo_add_task_run] a demo_add_task_run
  show ?thesis by blast
qed



section \<open>Dates that do not parse\<close>

text \<open>
  Claim C8. On add-task and on add-exam the date string never makes the handler raise:
  when the other fields parse, the request is served and the stored deadline (exam date)
  is the parsed date, or the current datetime when \<open>strptime\<close> rejects the string.
\<close>

theorem malformed_date_falls_back_to_now:
  "(action_of rq = AddTask \<and>
    form_int py (rq_form rq) ''complexity'' 0 = Inr c \<and>
    form_float py (rq_form rq) ''past_hours'' (Num 0) = Inr ph \<and>
    form_float py (rq_form rq) ''min_hours'' (Num 0) = Inr mh \<longrightarrow>
      (\<exists>st' answer t.
         home py ai rq st = Inr (st', answer) \<and>
         tasks_file st' = tasks_file st @ [t] \<and>
         t_deadline t =
           (case strptime py (form_get (rq_form rq) ''deadline'' []) of
              Some d \<Rightarrow> d
            | None \<Rightarrow> clock py (now_calls st)))) \<and>
   (action_of rq = AddExam \<and>
    form_int py (rq_form rq) ''exam_confidence'' 3 = Inr k \<and>
    form_float py (rq_form rq) ''exam_progress'' (Num 0) = Inr pr \<longrightarrow>
      (\<exists>st' answer e.
         home py ai rq st = Inr (st', answer) \<and>
         exams_file st' = exams_file st @ [e] \<and>
         e_exam_date e =
           (case strptime py (form_get (rq_form rq) ''exam_date'' []) of
              Some d \<Rightarrow> d
            | None \<Rightarrow> clock py (now_calls st))))"
proof (intro conjI impI; elim conjE)
  assume a: "action_of rq = AddTask"
    and p: "form_int py (rq_form rq) ''complexity'' 0 = Inr c"
      "form_float py (rq_form rq) ''past_hours'' (Num 0) = Inr ph"
      "form_float py (rq_form rq) ''min_hours'' (Num 0) = Inr mh"
  from home_add_task_succeeds [OF p] obtain st' answer where
    run: "home_add_task py ai (load_subjects st) (rq_form rq) st = Inr (st', answer)"
    by blast
  from home_add_task_result [OF run] obtain t where
    "tasks_file st' = tasks_file st @ [t]"
    "t_deadline t =
       (case strptime py (form_get (rq_form rq) ''deadline'' []) of
          Some d \<Rightarrow> d
        | None \<Rightarrow> clock py (now_calls st))"
    by blast
  moreover have "home py ai rq st = Inr (st', answer)"
    using run a by (simp add: home_AddTask)
  ultimately show "\<exists>st' answer t.
         home py ai rq st = Inr (st', answer) \<and>
         tasks_file st' = tasks_file st @ [t] \<and>
         t_deadline t =
           (case strptime py (form_get (rq_form rq) ''deadline'' []) of
              Some d \<Rightarrow> d
            | None \<Rightarrow> clock py (now_calls st))"
    by blast
next
  assume a: "action_of rq = AddExam"
    and p: "form_int py (rq_form rq) ''exam_confidence'' 3 = Inr k"
      "form_float py (rq_form rq) ''exam_progress'' (Num 0) = Inr pr"
  from home_add_exam_succeeds [OF p] obtain st' answer where
    run: "home_add_exam py ai (rq_form rq) st = Inr (st', answer)"
    by blast
  from home_add_exam_result [OF run] obtain e where
    "exams_file st' = exams_file st @ [e]"
    "e_exam_date e =
       (case strptime py (form_get (rq_form rq) ''exam_date'' []) of
          Some d \<Rightarrow> d
        | None \<Rightarrow> clock py (now_calls st))"
    by blast
  moreover have "home py ai rq st = Inr (st', answer)"
    using run a by (simp add: home_AddExam)
  ultimately show "\<exists>st' answer e.
         home py ai rq st = Inr (st', answer) \<and>
         exams_file st' = exams_file st @ [e] \<and>
         e_exam_date e =
           (case strptime py (form_get (rq_form rq) ''exam_date'' []) of
              Some d \<Rightarrow> d
            | None \<Rightarrow> clock py (now_calls st))"
    by blast
qed

theorem malformed_date_falls_back_to_now_witness:
  "action_of demo_add_task = AddTask \<and>
   form_int demo_py (rq_form demo_add_task) ''complexity'' 0 = Inr 15 \<and>
   form_float demo_py (rq_form demo_add_task) ''past_hours'' (Num 0) = Inr (Num (- 2)) \<and>
   form_float demo_py (rq_form demo_add_task) ''min_hours'' (Num 0) = Inr Nan \<and>
   strptime demo_py (form_get (rq_form demo_add_task) ''deadline'' []) = None \<and>
   (\<exists>st' answer t.
      home demo_py demo_ai demo_add_task empty_store = Inr (st', answer) \<and>
      tasks_file st' = tasks_file empty_store @ [t] \<and>
      t_deadline t = clock demo_py (now_calls empty_store)) \<and>
   action_of demo_add_exam = AddExam \<and>
   form_int demo_py (rq_form demo_add_exam) ''exam_confidence'' 3 = Inr 2 \<and>
   form_float demo_py (rq_form demo_add_exam) ''exam_progress'' (Num 0) = Inr (Num (- 1)) \<and>
   strptime demo_py (form_get (rq_form demo_add_exam) ''exam_date'' []) = None \<and>
   (\<exists>st' answer e.
      home demo_py demo_ai demo_add_exam empty_store = Inr (st', answer) \<and>
      exams_file st' = exams_file empty_store @ [e] \<and>
      e_exam_date e = clock demo_py (now_calls empty_store))"
proof -
  have a: "action_of demo_add_task = AddTask"
    by (simp add: demo_add_task_def post_def action_of_def)
  have c: "form_int demo_py (rq_form demo_add_task) ''complexity'' 0 = Inr 15"
    by (simp add: demo_add_task_def demo_defs form_int_def)
  have ph: "form_float demo_py (rq_form demo_add_task) ''past_hours'' (Num 0) = Inr (Num (- 2))"
    by (simp add: demo_add_task_def demo_defs form_float_def)
  have mh: "form_float demo_py (rq_form demo_add_task) ''min_hours'' (Num 0) = Inr Nan"
    by (simp add: demo_add_task_def demo_defs form_float_def)
  have d: "strptime demo_py (form_get (rq_form demo_add_task) ''deadline'' []) = None"
    by (simp add: demo_add_task_def demo_defs form_get_def)
  have a': "action_of demo_add_exam = AddExam"
    by (simp add: demo_add_exam_def post_def action_of_def)
  have k: "form_int demo_py (rq_form demo_add_exam) ''exam_confidence'' 3 = Inr 2"
    by (simp add: demo_add_exam_def demo_defs form_int_def)
  have pr: "form_float demo_py (rq_form demo_add_exam) ''exam_progress'' (Num 0) = Inr (Num (- 1))"
    by (simp add: demo_add_exam_def demo_defs form_float_def)
  have d': "strptime demo_py (form_get (rq_form demo_add_exam) ''exam_date'' []) = None"
    by (simp add: demo_add_exam_def demo_defs form_get_def)
  from malformed_date_falls_back_to_now
         [of demo_add_task demo_py 15 "Num (- 2)" Nan demo_ai empty_store 2 "Num (- 1)"]
       a c ph mh d
  have task: "\<exists>st' answer t.
      home demo_py demo_ai demo_add_task empty_store = Inr (st', answer) \<and>
      tasks_file st' = tasks_file empty_store @ [t] \<and>
      t_deadline t = clock demo_py (now_calls empty_store)"
    by simp
  from malformed_date_falls_back_to_now
         [of demo_add_exam demo_py 15 "Num (- 2)" Nan demo_ai empty_store 2 "Num (- 1)"]
       a' k pr d'
  have exam: "\<exists>st' answer e.
      home demo_py demo_ai demo_add_exam empty_store = Inr (st', answer) \<and>
      exams_file st' = exams_file empty_store @ [e] \<and>
      e_exam_date e = clock demo_py (now_calls empty_store)"
    by simp
  from a c ph mh d task a' k pr d' exam show ?thesis by blast
qed

section \<open>What one request does to the tasks and the exams\<close>

lemma add_saved_schedule_frame:
  assumes "add_saved_schedule py name items st = (result, st')"
  shows "tasks_file st' = tasks_file st \<and> exams_file st' = exams_file st \<and>
         task_model st' = task_model st"
  using assms
  by (auto simp: add_saved_schedule_def Let_def now_def save_all_schedules_def
        split: if_splits)

lemma save_schedule_frame:
  assumes "save_schedule py ai rq st = (st', answer)"
  shows "tasks_file st' = tasks_file st \<and> exams_file st' = exams_file st \<and>
         task_model st' = task_model st"
proof -
  obtain result st1 where
    add: "add_saved_schedule py
            (if py_strip (form_get (rq_form rq) ''schedule_name'' []) \<noteq> []
             then py_strip (form_get (rq_form rq) ''schedule_name'' [])
             else ''Saved Schedule'')
            (current_schedule ai st) st = (result, st1)"
    by (cases "add_saved_schedule py
            (if py_strip (form_get (rq_form rq) ''schedule_name'' []) \<noteq> []
             then py_strip (form_get (rq_form rq) ''schedule_name'' [])
             else ''Saved Schedule'')
            (current_schedule ai st) st")
  with assms have "st' = st1"
    by (simp add: save_schedule_def Let_def)
  with add_saved_schedule_frame [OF add] show ?thesis by simp
qed

lemma delete_schedule_frame:
  assumes "delete_schedule py rq st = Inr (st', answer)"
  shows "tasks_file st' = tasks_file st \<and> exams_file st' = exams_file st \<and>
         task_model st' = task_model st"
  using assms
  by (auto simp: delete_schedule_def delete_saved_schedule_def and_then_def Let_def
        save_all_schedules_def split: option.splits if_splits)

lemma serve_exams_cases:
  assumes "serve py ai r st = Inr (st', answer)"
  shows "exams_file st' = exams_file st \<or>
         (\<exists>e. exams_file st' = exams_file st @ [e] \<and> \<not> e_completed e \<and>
              e_id e = Max (insert 0 (set (map e_id (exams_file st)))) + 1 \<and>
              fge (e_progress_hours e) (Num 0)) \<or>
         (\<exists>eid d. exams_file st' = progress_loop eid (py_max (Num 0) d) (exams_file st)) \<or>
         (\<exists>eid a. exams_file st' = complete_exam_loop eid a (exams_file st))"
proof (cases r)
  case (Pair route rq)
  show ?thesis
  proof (cases route)
    case Home
    with Pair assms have h: "home py ai rq st = Inr (st', answer)" by simp
    show ?thesis
    proof (cases "action_of rq")
      case SavePrefs
      with h home_save_prefs_result [of py ai "rq_form rq" st st' answer]
      show ?thesis by (simp add: home_def)
    next
      case EditPrefs
      with h show ?thesis by (auto simp: home_def)
    next
      case AddTask
      with h home_add_task_result [of py ai "load_subjects st" "rq_form rq" st st' answer]
      show ?thesis by (auto simp: home_def)
    next
      case CompleteTask
      with h home_complete_task_result [of py ai "rq_form rq" st st' answer]
      show ?thesis by (simp add: home_def)
    next
      case AddExam
      with h have "home_add_exam py ai (rq_form rq) st = Inr (st', answer)"
        by (simp add: home_def)
      from home_add_exam_result [OF this] obtain pr e where
        "exams_file st' = exams_file st @ [e]" "\<not> e_completed e"
        "e_id e = Max (insert 0 (set (map e_id (exams_file st)))) + 1"
        "e_progress_hours e = py_max (Num 0) pr"
        by blast
      then show ?thesis using py_max_zero_nonneg [of pr] by auto
    next
      case UpdateExam
      with h home_update_exam_result [of py ai "rq_form rq" st st' answer]
      show ?thesis by (auto simp: home_def)
    next
      case CompleteExam
      with h home_complete_exam_result [of py ai "rq_form rq" st st' answer]
      show ?thesis by (auto simp: home_def)
    next
      case Show
      with h show ?thesis by (auto simp: home_def)
    qed
  next
    case Generate
    with Pair assms show ?thesis by (auto split: if_splits)
  next
    case SaveSchedule
    with Pair assms save_schedule_frame [of py ai rq st st' answer]
    show ?thesis by (auto split: if_splits)
  next
    case DeleteSchedule
    with Pair assms delete_schedule_frame [of py rq st st' answer]
    show ?thesis by (auto split: if_splits)
  qed
qed

lemma serve_tasks_cases:
  assumes "serve py ai r st = Inr (st', answer)"
  shows "map t_id (tasks_file st') = map t_id (tasks_file st) \<or>
         (\<exists>t. tasks_file st' = tasks_file st @ [t] \<and>
              t_id t = Max (insert 0 (set (map t_id (tasks_file st)))) + 1)"
proof (cases r)
  case (Pair route rq)
  show ?thesis
  proof (cases route)
    case Home
    with Pair assms have h: "home py ai rq st = Inr (st', answer)" by simp
    show ?thesis
    proof (cases "action_of rq")
      case SavePrefs
      with h home_save_prefs_result [of py ai "rq_form rq" st st' answer]
      show ?thesis by (simp add: home_def)
    next
      case EditPrefs
      with h show ?thesis by (auto simp: home_def)
    next
      case AddTask
      with h home_add_task_result [of py ai "load_subjects st" "rq_form rq" st st' answer]
      show ?thesis by (auto simp: home_def)
    next
      case CompleteTask
      with h home_complete_task_result [of py ai "rq_form rq" st st' answer]
      show ?thesis by (simp add: home_def)
    next
      case AddExam
      with h home_add_exam_result [of py ai "rq_form rq" st st' answer]
      show ?thesis by (auto simp: home_def)
    next
      case UpdateExam
      with h home_update_exam_result [of py ai "rq_form rq" st st' answer]
      show ?thesis by (auto simp: home_def)
    next
      case CompleteExam
      with h home_complete_exam_result [of py ai "rq_form rq" st st' answer]
      show ?thesis by (auto simp: home_def)
    next
      case Show
      with h show ?thesis by (auto simp: home_def)
    qed
  next
    case Generate
    with Pair assms show ?thesis by (auto split: if_splits)
  next
    case SaveSchedule
    with Pair assms save_schedule_frame [of py ai rq st st' answer]
    show ?thesis by (auto split: if_splits)
  next
    case DeleteSchedule
    with Pair assms delete_schedule_frame [of py rq st st' answer]
    show ?thesis by (auto split: if_splits)
  qed
qed

lemma fresh_id_greater:
  fixes ids :: "int list"
  assumes "x \<in> set ids"
  shows "x < Max (insert 0 (set ids)) + 1"
proof -
  have "x \<le> Max (insert 0 (set ids))" using assms by (intro Max_ge) simp_all
  then show ?thesis by simp
qed

lemma fresh_id_distinct:
  fixes ids :: "int list"
  assumes "distinct ids"
  shows "distinct (ids @ [Max (insert 0 (set ids)) + 1])"
  using assms fresh_id_greater [of "Max (insert 0 (set ids)) + 1" ids] by auto

lemma serve_keeps_ids_distinct:
  assumes "serve py ai r st = Inr (st', answer)"
    and "distinct (map t_id (tasks_file st))" and "distinct (map e_id (exams_file st))"
  shows "distinct (map t_id (tasks_file st')) \<and> distinct (map e_id (exams_file st'))"
proof
  from serve_tasks_cases [OF assms(1)] show "distinct (map t_id (tasks_file st'))"
    using assms(2) fresh_id_distinct [of "map t_id (tasks_file st)"] by auto
next
  from serve_exams_cases [OF assms(1)] show "distinct (map e_id (exams_file st'))"
    using assms(3) fresh_id_distinct [of "map e_id (exams_file st)"] by auto
qed

lemma run_keeps_ids_distinct:
  assumes "distinct (map t_id (tasks_file st))" and "distinct (map e_id (exams_file st))"
  shows "distinct (map t_id (tasks_file (run py ai rqs st))) \<and>
         distinct (map e_id (exams_file (run py ai rqs st)))"
  using assms
proof (induction rqs arbitrary: st)
  case Nil
  then show ?case by simp
next
  case (Cons r rest)
  show ?case
  proof (cases "serve py ai r st")
    case (Inl e)
    with Cons show ?thesis by simp
  next
    case (Inr p)
    obtain st' answer where p: "p = (st', answer)" by (cases p)
    from serve_keeps_ids_distinct [OF Inr [unfolded p] Cons.prems]
    have "distinct (map t_id (tasks_file st'))" "distinct (map e_id (exams_file st'))"
      by simp_all
    from Cons.IH [OF this] Inr p show ?thesis by simp
  qed
qed

lemma serve_exam_step:
  assumes "serve py ai r st = Inr (st', answer)" and "i < length (exams_file st)"
  shows "i < length (exams_file st') \<and>
         e_id (exams_file st' ! i) = e_id (exams_file st ! i) \<and>
         (e_completed (exams_file st ! i) \<longrightarrow> e_completed (exams_file st' ! i)) \<and>
         (fge (e_progress_hours (exams_file st ! i)) (Num 0) \<longrightarrow>
            fge (e_progress_hours (exams_file st' ! i)) (e_progress_hours (exams_file st ! i)))"
proof -
  consider
    (same) "exams_file st' = exams_file st"
  | (add) e where "exams_file st' = exams_file st @ [e]"
  | (progress) eid d where
      "exams_file st' = progress_loop eid (py_max (Num 0) d) (exams_file st)"
  | (complete) eid a where "exams_file st' = complete_exam_loop eid a (exams_file st)"
    using serve_exams_cases [OF assms(1)] by blast
  then show ?thesis
  proof cases
    case same
    then show ?thesis using assms(2) by (auto intro: fge_trans fge_refl elim: fge.elims)
  next
    case add
    then show ?thesis using assms(2) by (auto simp: nth_append elim: fge.elims)
  next
    case progress
    then show ?thesis
      using assms(2) fadd_nonneg_ge(1) [OF _ py_max_zero_nonneg]
      by (auto simp: progress_loop_nth elim: fge.elims)
  next
    case complete
    then show ?thesis
      using assms(2) by (auto simp: complete_exam_loop_nth elim: fge.elims)
  qed
qed

text \<open>Progress hours that are not negative stay so, whatever requests are served.\<close>

lemma progress_loop_nonneg:
  assumes "\<forall>e \<in> set es. fge (e_progress_hours e) (Num 0)"
  shows "\<forall>e \<in> set (progress_loop eid (py_max (Num 0) d) es). fge (e_progress_hours e) (Num 0)"
  using assms
  by (induction es) (auto simp: fadd_nonneg_ge(2) py_max_zero_nonneg)

lemma complete_exam_loop_progress [simp]:
  "map e_progress_hours (complete_exam_loop eid a es) = map e_progress_hours es"
  by (induction es) simp_all

lemma serve_keeps_progress_nonneg:
  assumes "serve py ai r st = Inr (st', answer)"
    and "\<forall>e \<in> set (exams_file st). fge (e_progress_hours e) (Num 0)"
  shows "\<forall>e \<in> set (exams_file st'). fge (e_progress_hours e) (Num 0)"
proof -
  consider
    (same) "exams_file st' = exams_file st"
  | (add) e where "exams_file st' = exams_file st @ [e]" "fge (e_progress_hours e) (Num 0)"
  | (progress) eid d where
      "exams_file st' = progress_loop eid (py_max (Num 0) d) (exams_file st)"
  | (complete) eid a where "exams_file st' = complete_exam_loop eid a (exams_file st)"
    using serve_exams_cases [OF assms(1)] by blast
  then show ?thesis
  proof cases
    case same
    then show ?thesis using assms(2) by simp
  next
    case add
    then show ?thesis using assms(2) by auto
  next
    case progress
    then show ?thesis using progress_loop_nonneg [OF assms(2)] by simp
  next
    case complete
    have "set (map e_progress_hours (exams_file st')) = set (map e_progress_hours (exams_file st))"
      by (simp add: complete)
    then show ?thesis using assms(2) by (metis (no_types, lifting) image_iff list.set_map)
  qed
qed

lemma run_keeps_progress_nonneg:
  assumes "\<forall>e \<in> set (exams_file st). fge (e_progress_hours e) (Num 0)"
  shows "\<forall>e \<in> set (exams_file (run py ai rqs st)). fge (e_progress_hours e) (Num 0)"
  using assms
proof (induction rqs arbitrary: st)
  case Nil
  then show ?case by simp
next
  case (Cons r rest)
  show ?case
  proof (cases "serve py ai r st")
    case (Inl e)
    with Cons show ?thesis by simp
  next
    case (Inr p)
    obtain st' answer where p: "p = (st', answer)" by (cases p)
    from serve_keeps_progress_nonneg [OF Inr [unfolded p] Cons.prems]
    have "\<forall>e \<in> set (exams_file st'). fge (e_progress_hours e) (Num 0)" .
    from Cons.IH [OF this] Inr p show ?thesis by simp
  qed
qed

section \<open>The example stores\<close>

lemmas run_defs =
  demo_add_task_def demo_add_task2_def demo_add_exam_def demo_update_exam_def
  demo_complete_exam_def demo_complete_task_def save_schedule_def add_saved_schedule_def
  delete_schedule_def delete_saved_schedule_def generate_def MAX_SAVED_SCHEDULES_def
  trunc_def py_round_def str_int_def str_nat.simps

lemma one_exam_store_eq:
  "one_exam_store =
     \<lparr>prefs_file = None, subjects_file = [], tasks_file = [],
      exams_file =
        [\<lparr>e_id = 1, e_subject_name = ''maths'', e_exam_name = ''finals'',
          e_exam_date = \<lparr>dt_date = (2026, 11, 3), dt_time = (12, 0, 0, 0)\<rparr>,
          e_desired_grade = ''B'', e_confidence = 2, e_progress_hours = Num 0,
          e_predicted_hours = Num 0, e_completed = False,
          e_actual_hours_spent = None\<rparr>],
      schedules_file = None, task_model = 0, now_calls = 1\<rparr>"
  by (simp add: one_exam_store_def demo_add_exam_run)

lemma done_exam_store_eq:
  "done_exam_store =
     \<lparr>prefs_file = None, subjects_file = [], tasks_file = [],
      exams_file =
        [\<lparr>e_id = 1, e_subject_name = ''maths'', e_exam_name = ''finals'',
          e_exam_date = \<lparr>dt_date = (2026, 11, 3), dt_time = (12, 0, 0, 0)\<rparr>,
          e_desired_grade = ''B'', e_confidence = 2, e_progress_hours = Num 0,
          e_predicted_hours = Num 0, e_completed = True,
          e_actual_hours_spent = Some (Num 7)\<rparr>],
      schedules_file = None, task_model = 0, now_calls = 1\<rparr>"
  by (simp add: done_exam_store_def one_exam_store_eq run_defs demo_defs handler_defs)

lemma done_task_store_eq:
  "done_task_store =
     \<lparr>prefs_file = None, subjects_file = [],
      tasks_file =
        [\<lparr>t_id = 1, t_name = ''lab report'',
          t_deadline = \<lparr>dt_date = (2026, 12, 1), dt_time = (0, 0, 0, 0)\<rparr>,
          t_hours = Num 6, t_priority = ''low'', t_complexity = 4,
          t_past_hours = Num 2, t_min_hours = Num 1, t_matched_subject = None,
          t_completed = True, t_actual_hours = Some (Num 3),
          t_completion_date = Some (2026, 11, 3)\<rparr>],
      exams_file = [], schedules_file = None, task_model = 1, now_calls = 1\<rparr>"
  by (simp add: done_task_store_def run_defs demo_defs handler_defs)

lemma two_schedules_store_eq:
  "two_schedules_store =
     \<lparr>prefs_file = None, subjects_file = [],
      tasks_file =
        [\<lparr>t_id = 1, t_name = ''lab report'',
          t_deadline = \<lparr>dt_date = (2026, 12, 1), dt_time = (0, 0, 0, 0)\<rparr>,
          t_hours = Num 6, t_priority = ''low'', t_complexity = 4,
          t_past_hours = Num 2, t_min_hours = Num 1, t_matched_subject = None,
          t_completed = False, t_actual_hours = None, t_completion_date = None\<rparr>],
      exams_file =
        [\<lparr>e_id = 1, e_subject_name = ''maths'', e_exam_name = ''finals'',
          e_exam_date = \<lparr>dt_date = (2026, 11, 3), dt_time = (12, 0, 4, 0)\<rparr>,
          e_desired_grade = ''B'', e_confidence = 2, e_progress_hours = Num 0,
          e_predicted_hours = Num 0, e_completed = False,
          e_actual_hours_spent = None\<rparr>],
      schedules_file =
        Some [\<lparr>ss_id = 1, ss_name = ''Saved Schedule'',
                ss_created_at = ''2026-11-3 12:0:0'', ss_updated_at = ''2026-11-3 12:0:5'',
                ss_items = [''lab report'', ''exam 1'']\<rparr>,
              \<lparr>ss_id = 2, ss_name = ''plan B'',
                ss_created_at = ''2026-11-3 12:0:2'', ss_updated_at = ''2026-11-3 12:0:6'',
                ss_items = [''lab report'', ''exam 1'']\<rparr>],
      task_model = 0, now_calls = 7\<rparr>"
  by (simp add: two_schedules_store_def run_defs demo_defs handler_defs)

section \<open>Ids\<close>

text \<open>
  Claim C9. A served add-task request gives the new task the id \<open>max(ids + [0]) + 1\<close>,
  which is greater than the id of every stored task; add-exam does the same for exams.
  So, whatever requests are served, task ids that are distinct stay distinct, and so do
  exam ids.
\<close>

theorem ids_never_collide:
  "(action_of rq = AddTask \<and> home py ai rq st = Inr (st', answer) \<longrightarrow>
      (\<exists>t. tasks_file st' = tasks_file st @ [t] \<and>
           t_id t = Max (insert 0 (set (map t_id (tasks_file st)))) + 1 \<and>
           (\<forall>u \<in> set (tasks_file st). t_id u < t_id t))) \<and>
   (action_of rq = AddExam \<and> home py ai rq st = Inr (st', answer) \<longrightarrow>
      (\<exists>e. exams_file st' = exams_file st @ [e] \<and>
           e_id e = Max (insert 0 (set (map e_id (exams_file st)))) + 1 \<and>
           (\<forall>u \<in> set (exams_file st). e_id u < e_id e))) \<and>
   (distinct (map t_id (tasks_file st)) \<and> distinct (map e_id (exams_file st)) \<longrightarrow>
      distinct (map t_id (tasks_file (run py ai rqs st))) \<and>
      distinct (map e_id (exams_file (run py ai rqs st))))"
proof (intro conjI impI; (elim conjE)?)
  assume "action_of rq = AddTask" and "home py ai rq st = Inr (st', answer)"
  then have "home_add_task py ai (load_subjects st) (rq_form rq) st = Inr (st', answer)"
    by (simp add: home_AddTask)
  from home_add_task_result [OF this] obtain t where
    t: "tasks_file st' = tasks_file st @ [t]"
       "t_id t = Max (insert 0 (set (map t_id (tasks_file st)))) + 1"
    by blast
  have "\<forall>u \<in> set (tasks_file st). t_id u < t_id t"
    using fresh_id_greater [of _ "map t_id (tasks_file st)"] t(2) by simp
  with t show "\<exists>t. tasks_file st' = tasks_file st @ [t] \<and>
           t_id t = Max (insert 0 (set (map t_id (tasks_file st)))) + 1 \<and>
           (\<forall>u \<in> set (tasks_file st). t_id u < t_id t)"
    by blast
next
  assume "action_of rq = AddExam" and "home py ai rq st = Inr (st', answer)"
  then have "home_add_exam py ai (rq_form rq) st = Inr (st', answer)"
    by (simp add: home_AddExam)
  from home_add_exam_result [OF this] obtain e where
    e: "exams_file st' = exams_file st @ [e]"
       "e_id e = Max (insert 0 (set (map e_id (exams_file st)))) + 1"
    by blast
  have "\<forall>u \<in> set (exams_file st). e_id u < e_id e"
    using fresh_id_greater [of _ "map e_id (exams_file st)"] e(2) by simp
  with e show "\<exists>e. exams_file st' = exams_file st @ [e] \<and>
           e_id e = Max (insert 0 (set (map e_id (exams_file st)))) + 1 \<and>
           (\<forall>u \<in> set (exams_file st). e_id u < e_id e)"
    by blast
next
  assume "distinct (map t_id (tasks_file st))" and "distinct (map e_id (exams_file st))"
  then show "distinct (map t_id (tasks_file (run py ai rqs st)))"
    and "distinct (map e_id (exams_file (run py ai rqs st)))"
    using run_keeps_ids_distinct by blast+
qed

lemma demo_add_task_after_task:
  "\<exists>st' answer. home demo_py demo_ai demo_add_task done_task_store = Inr (st', answer) \<and>
     map t_id (tasks_file st') = [1, 2]"
  by (simp add: done_task_store_eq run_defs demo_defs handler_defs)

lemma demo_add_exam_after_exam:
  "\<exists>st' answer. home demo_py demo_ai demo_add_exam done_exam_store = Inr (st', answer) \<and>
     map e_id (exams_file st') = [1, 2]"
  by (simp add: done_exam_store_eq run_defs demo_defs handler_defs)

theorem ids_never_collide_witness:
  "action_of demo_add_task = AddTask \<and>
   (\<exists>st' answer.
      home demo_py demo_ai demo_add_task done_task_store = Inr (st', answer) \<and>
      map t_id (tasks_file done_task_store) = [1] \<and> map t_id (tasks_file st') = [1, 2]) \<and>
   action_of demo_add_exam = AddExam \<and>
   (\<exists>st' answer.
      home demo_py demo_ai demo_add_exam done_exam_store = Inr (st', answer) \<and>
      map e_id (exams_file done_exam_store) = [1] \<and> map e_id (exams_file st') = [1, 2]) \<and>
   distinct (map t_id (tasks_file empty_store)) \<and>
   distinct (map e_id (exams_file empty_store)) \<and>
   distinct (map t_id (tasks_file
     (run demo_py demo_ai
        [(Home, demo_add_task), (Home, demo_add_exam), (Home, demo_add_task2)] empty_store))) \<and>
   distinct (map e_id (exams_file
     (run demo_py demo_ai
        [(Home, demo_add_task), (Home, demo_add_exam), (Home, demo_add_task2)] empty_store)))"
proof -
  have a: "action_of demo_add_task = AddTask"
    by (simp add: demo_add_task_def post_def action_of_def)
  have a': "action_of demo_add_exam = AddExam"
    by (simp add: demo_add_exam_def post_def action_of_def)
  have t0: "map t_id (tasks_file done_task_store) = [1]"
    by (simp add: done_task_store_eq)
  have e0: "map e_id (exams_file done_exam_store) = [1]"
    by (simp add: done_exam_store_eq)
  have d: "distinct (map t_id (tasks_file empty_store))"
    "distinct (map e_id (exams_file empty_store))"
    by (simp_all add: empty_store_def)
  from ids_never_collide
         [of demo_add_task demo_py demo_ai empty_store _ _
            "[(Home, demo_add_task), (Home, demo_add_exam), (Home, demo_add_task2)]"] d
  have "distinct (map t_id (tasks_file
     (run demo_py demo_ai
        [(Home, demo_add_task), (Home, demo_add_exam), (Home, demo_add_task2)] empty_store)))"
   "distinct (map e_id (exams_file
     (run demo_py demo_ai
        [(Home, demo_add_task), (Home, demo_add_exam), (Home, demo_add_task2)] empty_store)))"
    by blast+
  with a a' t0 e0 d demo_add_task_after_task demo_add_exam_after_exam
  show ?thesis by auto
qed

section \<open>Exams\<close>

lemma home_UpdateExam:
  "action_of rq = UpdateExam \<Longrightarrow> home py ai rq st = home_update_exam py ai (rq_form rq) st"
  by (simp add: home_def)

lemma run_exam_step:
  assumes "i < length (exams_file st)"
  shows "i < length (exams_file (run py ai rqs st)) \<and>
         e_id (exams_file (run py ai rqs st) ! i) = e_id (exams_file st ! i) \<and>
         (e_completed (exams_file st ! i) \<longrightarrow> e_completed (exams_file (run py ai rqs st) ! i)) \<and>
         (fge (e_progress_hours (exams_file st ! i)) (Num 0) \<longrightarrow>
            fge (e_progress_hours (exams_file (run py ai rqs st) ! i))
                (e_progress_hours (exams_file st ! i)))"
  using assms
proof (induction rqs arbitrary: st)
  case Nil
  then show ?case by (auto intro: fge_refl elim: fge.elims)
next
  case (Cons r rest)
  show ?case
  proof (cases "serve py ai r st")
    case (Inl e)
    with Cons show ?thesis by simp
  next
    case (Inr p)
    obtain st' answer where p: "p = (st', answer)" by (cases p)
    note step = serve_exam_step [OF Inr [unfolded p] Cons.prems]
    then have i: "i < length (exams_file st')" by simp
    note rest = Cons.IH [OF i]
    have run: "run py ai (r # rest) st = run py ai rest st'"
      using Inr p by simp
    show ?thesis
      unfolding run using step rest by (auto intro: fge_trans)
  qed
qed

text \<open>
  Claim C3. A served update-exam-progress request with exam id \<open>eid\<close> and submitted hours
  \<open>d\<close> keeps the number and the order of the stored exams; the progress hours of every
  exam with that id that is not completed become the prior value plus \<open>max(0.0, d)\<close>, and
  those of every other exam (a completed one, or one with another id) are unchanged.
  Further, whatever requests are served, the progress hours of a stored exam that are
  not negative never decrease.
\<close>

theorem exam_progress_never_decreases:
  "(action_of rq = UpdateExam \<and> home py ai rq st = Inr (st', answer) \<longrightarrow>
      (\<exists>eid d.
         form_int_req py (rq_form rq) ''update_exam_id'' = Inr eid \<and>
         form_float py (rq_form rq) ''add_progress_hours'' (Num 0) = Inr d \<and>
         length (exams_file st') = length (exams_file st) \<and>
         (\<forall>j < length (exams_file st).
            e_progress_hours (exams_file st' ! j) =
              (if e_id (exams_file st ! j) = eid \<and> \<not> e_completed (exams_file st ! j)
               then fadd (e_progress_hours (exams_file st ! j)) (py_max (Num 0) d)
               else e_progress_hours (exams_file st ! j))))) \<and>
   (i < length (exams_file st) \<and> fge (e_progress_hours (exams_file st ! i)) (Num 0) \<longrightarrow>
      i < length (exams_file (run py ai rqs st)) \<and>
      fge (e_progress_hours (exams_file (run py ai rqs st) ! i))
          (e_progress_hours (exams_file st ! i)))"
proof (intro conjI impI; (elim conjE)?)
  assume "action_of rq = UpdateExam" and "home py ai rq st = Inr (st', answer)"
  then have "home_update_exam py ai (rq_form rq) st = Inr (st', answer)"
    by (simp add: home_UpdateExam)
  from home_update_exam_result [OF this] obtain eid d where
    p: "form_int_req py (rq_form rq) ''update_exam_id'' = Inr eid"
       "form_float py (rq_form rq) ''add_progress_hours'' (Num 0) = Inr d" and
    ex: "exams_file st' = progress_loop eid (py_max (Num 0) d) (exams_file st)"
    by blast
  have "length (exams_file st') = length (exams_file st)"
    by (simp add: ex)
  moreover have "\<forall>j < length (exams_file st).
            e_progress_hours (exams_file st' ! j) =
              (if e_id (exams_file st ! j) = eid \<and> \<not> e_completed (exams_file st ! j)
               then fadd (e_progress_hours (exams_file st ! j)) (py_max (Num 0) d)
               else e_progress_hours (exams_file st ! j))"
    by (simp add: ex progress_loop_nth)
  ultimately show "\<exists>eid d.
         form_int_req py (rq_form rq) ''update_exam_id'' = Inr eid \<and>
         form_float py (rq_form rq) ''add_progress_hours'' (Num 0) = Inr d \<and>
         length (exams_file st') = length (exams_file st) \<and>
         (\<forall>j < length (exams_file st).
            e_progress_hours (exams_file st' ! j) =
              (if e_id (exams_file st ! j) = eid \<and> \<not> e_completed (exams_file st ! j)
               then fadd (e_progress_hours (exams_file st ! j)) (py_max (Num 0) d)
               else e_progress_hours (exams_file st ! j)))"
    using p by blast
next
  assume i: "i < length (exams_file st)"
    and p: "fge (e_progress_hours (exams_file st ! i)) (Num 0)"
  from run_exam_step [OF i, of py ai rqs] p
  show "i < length (exams_file (run py ai rqs st))"
    and "fge (e_progress_hours (exams_file (run py ai rqs st) ! i))
          (e_progress_hours (exams_file st ! i))"
    by simp_all
qed

lemma demo_update_exam_run:
  "home demo_py demo_ai demo_update_exam one_exam_store =
     Inr (one_exam_store\<lparr>exams_file :=
            [(exams_file one_exam_store ! 0)\<lparr>e_progress_hours := Num 3\<rparr>]\<rparr>,
          Redirect [(''tab'', ''exams'')])"
  by (simp add: one_exam_store_eq run_defs demo_defs handler_defs)

lemma demo_update_done_exam_run:
  "home demo_py demo_ai demo_update_exam done_exam_store =
     Inr (done_exam_store, Redirect [(''tab'', ''exams'')])"
  by (simp add: done_exam_store_eq run_defs demo_defs handler_defs)

theorem exam_progress_never_decreases_witness:
  "action_of demo_update_exam = UpdateExam \<and>
   (\<exists>st' answer.
      home demo_py demo_ai demo_update_exam one_exam_store = Inr (st', answer) \<and>
      form_int_req demo_py (rq_form demo_update_exam) ''update_exam_id'' = Inr 1 \<and>
      form_float demo_py (rq_form demo_update_exam) ''add_progress_hours'' (Num 0)
        = Inr (Num 3) \<and>
      e_progress_hours (exams_file one_exam_store ! 0) = Num 0 \<and>
      e_progress_hours (exams_file st' ! 0) = Num 3) \<and>
   (\<exists>st' answer.
      home demo_py demo_ai demo_update_exam done_exam_store = Inr (st', answer) \<and>
      e_completed (exams_file done_exam_store ! 0) \<and>
      e_progress_hours (exams_file st' ! 0) = e_progress_hours (exams_file done_exam_store ! 0)) \<and>
   (0::nat) < length (exams_file one_exam_store) \<and>
   fge (e_progress_hours (exams_file one_exam_store ! 0)) (Num 0) \<and>
   0 < length (exams_file (run demo_py demo_ai
         [(Home, demo_update_exam), (Home, demo_complete_exam), (Home, demo_update_exam)]
         one_exam_store)) \<and>
   fge (e_progress_hours (exams_file (run demo_py demo_ai
         [(Home, demo_update_exam), (Home, demo_complete_exam), (Home, demo_update_exam)]
         one_exam_store) ! 0))
       (e_progress_hours (exams_file one_exam_store ! 0))"
proof -
  have a: "action_of demo_update_exam = UpdateExam"
    by (simp add: demo_update_exam_def post_def action_of_def)
  have p: "form_int_req demo_py (rq_form demo_update_exam) ''update_exam_id'' = Inr 1"
    "form_float demo_py (rq_form demo_update_exam) ''add_progress_hours'' (Num 0) = Inr (Num 3)"
    by (simp_all add: demo_update_exam_def demo_defs form_int_req_def form_float_def)
  have i: "(0::nat) < length (exams_file one_exam_store)"
    "fge (e_progress_hours (exams_file one_exam_store ! 0)) (Num 0)"
    "e_progress_hours (exams_file one_exam_store ! 0) = Num 0"
    by (simp_all add: one_exam_store_eq)
  have c: "e_completed (exams_file done_exam_store ! 0)"
    by (simp add: done_exam_store_eq)
  from exam_progress_never_decreases
         [of demo_update_exam demo_py demo_ai one_exam_store _ _ 0
            "[(Home, demo_update_exam), (Home, demo_complete_exam), (Home, demo_update_exam)]"]
       i
  have r: "0 < length (exams_file (run demo_py demo_ai
         [(Home, demo_update_exam), (Home, demo_complete_exam), (Home, demo_update_exam)]
         one_exam_store))"
    "fge (e_progress_hours (exams_file (run demo_py demo_ai
         [(Home, demo_update_exam), (Home, demo_complete_exam), (Home, demo_update_exam)]
         one_exam_store) ! 0))
       (e_progress_hours (exams_file one_exam_store ! 0))"
    by blast+
  show ?thesis
    using a p i c r by (simp add: demo_update_exam_run demo_update_done_exam_run)
qed

text \<open>
  Claim C4. The completed flag of an exam is one-way: whatever requests are served, an
  exam that is completed stays in its place in the stored list, keeps its id and stays
  completed.
\<close>

theorem exam_completed_is_one_way:
  assumes "i < length (exams_file st)" and "e_completed (exams_file st ! i)"
  shows "i < length (exams_file (run py ai rqs st)) \<and>
         e_completed (exams_file (run py ai rqs st) ! i) \<and>
         e_id (exams_file (run py ai rqs st) ! i) = e_id (exams_file st ! i)"
  using run_exam_step [OF assms(1), of py ai rqs] assms(2) by simp

theorem exam_completed_is_one_way_witness:
  "(0::nat) < length (exams_file done_exam_store) \<and>
   e_completed (exams_file done_exam_store ! 0) \<and>
   0 < length (exams_file (run demo_py demo_ai
         [(Home, demo_add_exam), (Home, demo_update_exam), (Home, demo_complete_exam)]
         done_exam_store)) \<and>
   e_completed (exams_file (run demo_py demo_ai
         [(Home, demo_add_exam), (Home, demo_update_exam), (Home, demo_complete_exam)]
         done_exam_store) ! 0) \<and>
   e_id (exams_file (run demo_py demo_ai
         [(Home, demo_add_exam), (Home, demo_update_exam), (Home, demo_complete_exam)]
         done_exam_store) ! 0) = e_id (exams_file done_exam_store ! 0)"
proof -
  have h: "(0::nat) < length (exams_file done_exam_store)"
    "e_completed (exams_file done_exam_store ! 0)"
    by (simp_all add: done_exam_store_eq)
  from exam_completed_is_one_way [OF h] h show ?thesis by blast
qed

section \<open>Completing a task\<close>

text \<open>The loop retrains once for every stored task with the submitted id, completed or not.\<close>

lemma complete_loop_retrains_every_match:
  "task_model (snd (complete_loop py ai tid ah ts st)) =
     fold (\<lambda>t m. retrain_model ai m
                    \<lparr>o_complexity = t_complexity t, o_past_hours = t_past_hours t,
                     o_priority = priority_weight (t_priority t), o_actual_hours = ah\<rparr>)
          (filter (\<lambda>t. t_id t = tid) ts) (task_model st)"
  by (induction ts arbitrary: st) (simp_all add: Let_def now_def split_def)

text \<open>
  Claim C2 says that completing a task that is already completed retrains nothing. The
  handler does retrain: task 1 of this store is completed and the estimator has been
  retrained once; the same complete-task request, sent again, is served and leaves the
  estimator retrained twice.
\<close>

theorem complete_task_retrains_completed_task:
  "t_id (tasks_file done_task_store ! 0) = 1 \<and>
   t_completed (tasks_file done_task_store ! 0) \<and>
   form_int_req demo_py (rq_form demo_complete_task) ''complete_task_id'' = Inr 1 \<and>
   task_model done_task_store = 1 \<and>
   (\<exists>st' answer.
      home demo_py demo_ai demo_complete_task done_task_store = Inr (st', answer) \<and>
      task_model st' = 2)"
  by (simp add: done_task_store_eq run_defs demo_defs handler_defs)

section \<open>Saved schedules: the cap and the refresh\<close>

lemma five_schedules_store_eq:
  "five_schedules_store =
     \<lparr>prefs_file = None, subjects_file = [], tasks_file = [], exams_file = [],
      schedules_file =
        Some [\<lparr>ss_id = 1, ss_name = ''Saved Schedule'', ss_created_at = ''2026-11-3 12:0:0'',
                ss_updated_at = ''2026-11-3 12:0:1'', ss_items = []\<rparr>,
              \<lparr>ss_id = 2, ss_name = ''Saved Schedule'', ss_created_at = ''2026-11-3 12:0:2'',
                ss_updated_at = ''2026-11-3 12:0:3'', ss_items = []\<rparr>,
              \<lparr>ss_id = 3, ss_name = ''Saved Schedule'', ss_created_at = ''2026-11-3 12:0:4'',
                ss_updated_at = ''2026-11-3 12:0:5'', ss_items = []\<rparr>,
              \<lparr>ss_id = 4, ss_name = ''Saved Schedule'', ss_created_at = ''2026-11-3 12:0:6'',
                ss_updated_at = ''2026-11-3 12:0:7'', ss_items = []\<rparr>,
              \<lparr>ss_id = 5, ss_name = ''Saved Schedule'', ss_created_at = ''2026-11-3 12:0:8'',
                ss_updated_at = ''2026-11-3 12:0:9'', ss_items = []\<rparr>],
      task_model = 0, now_calls = 10\<rparr>"
  by (simp add: five_schedules_store_def run_defs demo_defs handler_defs)

text \<open>
  Claim C6. With five or more schedules stored, \<open>add_saved_schedule\<close> returns \<open>False\<close>
  with its message and leaves the store as it was; with fewer than five it returns
  \<open>(True, "Saved.")\<close> and the stored list is the old one with exactly one schedule,
  holding the given items, appended.
\<close>

theorem add_saved_schedule_cap:
  "(5 \<le> length (load_saved_schedules st) \<longrightarrow>
      add_saved_schedule py name items st
        = ((False, ''You can only save up to 5 schedules.''), st)) \<and>
   (length (load_saved_schedules st) < 5 \<longrightarrow>
      (\<exists>s st'. add_saved_schedule py name items st = ((True, ''Saved.''), st') \<and>
               load_saved_schedules st' = load_saved_schedules st @ [s] \<and>
               ss_items s = items))"
  by (auto simp: add_saved_schedule_def Let_def now_def save_all_schedules_def
        load_saved_schedules_def MAX_SAVED_SCHEDULES_def split: option.splits)

theorem add_saved_schedule_cap_witness:
  "(5::nat) \<le> length (load_saved_schedules five_schedules_store) \<and>
   add_saved_schedule demo_py ''sixth'' [''x''] five_schedules_store
     = ((False, ''You can only save up to 5 schedules.''), five_schedules_store) \<and>
   length (load_saved_schedules two_schedules_store) < 5 \<and>
   (\<exists>s st'. add_saved_schedule demo_py ''third'' [''x''] two_schedules_store
               = ((True, ''Saved.''), st') \<and>
            load_saved_schedules st' = load_saved_schedules two_schedules_store @ [s] \<and>
            ss_items s = [''x''])"
proof -
  have five: "(5::nat) \<le> length (load_saved_schedules five_schedules_store)"
    by (simp add: five_schedules_store_eq load_saved_schedules_def)
  have two: "length (load_saved_schedules two_schedules_store) < 5"
    by (simp add: two_schedules_store_eq load_saved_schedules_def)
  from add_saved_schedule_cap [of five_schedules_store demo_py "''sixth''" "[''x'']"]
       add_saved_schedule_cap [of two_schedules_store demo_py "''third''" "[''x'']"]
       five two
  show ?thesis by blast
qed



end
